theory Spec2Isabelle
  imports Main "HOL-Library.Word" "HOL-Library.Multiset"
begin

unbundle bit_operations_syntax

section \<open>JavaScript values as the analysis service sees them\<close>

text \<open>
  A JavaScript string is a sequence of 16-bit code units; \<open>length\<close>, \<open>substring\<close>,
  \<open>indexOf\<close> and \<open>trim\<close> all work on code units. String literals of the source are
  written \<open>str ''...''\<close>.
\<close>

type_synonym jschar = "16 word"
type_synonym jsstring = "jschar list"

definition str :: "string \<Rightarrow> jsstring" where
  "str s = map of_char s"

text \<open>
  \<open>String.prototype.trim\<close> and the numeric parsers strip the characters of
  \<open>WhiteSpace\<close> and \<open>LineTerminator\<close> (ECMA-262): TAB, LF, VT, FF, CR, SP, NBSP,
  U+1680, U+2000..U+200A, U+2028, U+2029, U+202F, U+205F, U+3000 and U+FEFF.
\<close>

definition isWhiteSpace :: "jschar \<Rightarrow> bool" where
  "isWhiteSpace c \<longleftrightarrow>
     c = 0x09 \<or> c = 0x0A \<or> c = 0x0B \<or> c = 0x0C \<or> c = 0x0D \<or> c = 0x20 \<or> c = 0xA0
   \<or> c = 0x1680 \<or> (0x2000 \<le> c \<and> c \<le> 0x200A) \<or> c = 0x2028 \<or> c = 0x2029
   \<or> c = 0x202F \<or> c = 0x205F \<or> c = 0x3000 \<or> c = 0xFEFF"

definition trimStart :: "jsstring \<Rightarrow> jsstring" where
  "trimStart s = dropWhile isWhiteSpace s"

definition trimEnd :: "jsstring \<Rightarrow> jsstring" where
  "trimEnd s = rev (dropWhile isWhiteSpace (rev s))"

definition trim :: "jsstring \<Rightarrow> jsstring" where
  "trim s = trimEnd (trimStart s)"

text \<open>
  A Number is kept as the decimal that \<open>Number::toString\<close> prints: a sign, the
  significant digits \<open>s\<close> (most significant first, no leading and no trailing zero) and
  the position \<open>n\<close> of the decimal point, so that the value is \<open>0.s \<times> 10\<^sup>n\<close>; these are
  the \<open>s\<close> and \<open>n\<close> of ECMA-262, with \<open>k = length s\<close>. Zero has no digits; the program
  never tells \<open>+0\<close> from \<open>-0\<close>.
\<close>

datatype jsnum = Num (neg: bool) (digits: "nat list") (point: int)

definition canonical :: "jsnum \<Rightarrow> bool" where
  "canonical x \<longleftrightarrow>
     (\<forall>d \<in> set (digits x). d < 10) \<and>
     (if digits x = [] then \<not> neg x \<and> point x = 0
      else hd (digits x) \<noteq> 0 \<and> last (digits x) \<noteq> 0)"

text \<open>
  Values that \<open>JSON.parse\<close> produces. An object lists its members in order.
  \<open>JInf negative\<close> is the Number \<open>Infinity\<close> or \<open>-Infinity\<close>, which a literal beyond
  the range of binary64 gives.
\<close>

datatype json =
    JNull
  | JBool bool
  | JNum jsnum
  | JInf bool
  | JStr jsstring
  | JArr "json list"
  | JObj "(jsstring \<times> json) list"

text \<open>
  The result of reading a property is a value or \<open>undefined\<close> (\<open>None\<close>).
  Runtime exceptions are values of \<open>error\<close>: the engine's \<open>TypeError\<close> and
  \<open>SyntaxError\<close>, the application's \<open>AppError message statusCode\<close>, and the
  errors of the libraries, \<open>LibError message code\<close>.
\<close>

datatype error =
    TypeError
  | SyntaxError
  | AppError jsstring nat
  | LibError jsstring "jsstring option"

subsection \<open>Conversions of the language\<close>

definition digit_char :: "nat \<Rightarrow> jschar" where
  "digit_char d = of_nat (48 + d)"

fun nat_digits :: "nat \<Rightarrow> nat list" where
  "nat_digits n = (if n < 10 then [n] else nat_digits (n div 10) @ [n mod 10])"

definition show_nat :: "nat \<Rightarrow> jsstring" where
  "show_nat n = map digit_char (nat_digits n)"

text \<open>\<open>Number::toString\<close> with radix 10, clause by clause (ECMA-262, 6.1.6.1.20).\<close>

definition Number_toString :: "jsnum \<Rightarrow> jsstring" where
  "Number_toString x =
     (if digits x = [] then str ''0''
      else (if neg x then str ''-'' else []) @
        (let k = int (length (digits x)); n = point x; s = map digit_char (digits x) in
         if k \<le> n \<and> n \<le> 21 then s @ replicate (nat (n - k)) (digit_char 0)
         else if 0 < n \<and> n \<le> 21 then take (nat n) s @ str ''.'' @ drop (nat n) s
         else if -6 < n \<and> n \<le> 0 then str ''0.'' @ replicate (nat (- n)) (digit_char 0) @ s
         else (let e = n - 1;
                   es = (if 0 < e then str ''+'' else str ''-'') @ show_nat (nat \<bar>e\<bar>)
               in if k = 1 then s @ str ''e'' @ es
                  else take 1 s @ str ''.'' @ drop 1 s @ str ''e'' @ es)))"

definition has_key :: "jsstring \<Rightarrow> (jsstring \<times> json) list \<Rightarrow> bool" where
  "has_key k kv \<longleftrightarrow> map_of kv k \<noteq> None"

text \<open>
  \<open>ToString\<close> of a decoded value. An array joins its elements with commas, \<open>null\<close>
  elements giving the empty string. A plain object prints as \<open>[object Object]\<close>
  through \<open>Object.prototype.toString\<close>; when it has a member \<open>toString\<close> of its own,
  that member is not callable, \<open>valueOf\<close> returns the object, and the conversion
  throws \<open>TypeError\<close>.
\<close>

fun ToString :: "json \<Rightarrow> error + jsstring"
  and join_elements :: "json list \<Rightarrow> error + jsstring" where
  "ToString JNull = Inr (str ''null'')"
| "ToString (JBool b) = Inr (if b then str ''true'' else str ''false'')"
| "ToString (JNum x) = Inr (Number_toString x)"
| "ToString (JInf negative) = Inr (if negative then str ''-Infinity'' else str ''Infinity'')"
| "ToString (JStr s) = Inr s"
| "ToString (JArr xs) = join_elements xs"
| "ToString (JObj kv) =
     (if has_key (str ''toString'') kv then Inl TypeError else Inr (str ''[object Object]''))"
| "join_elements [] = Inr []"
| "join_elements (x # xs) =
     (case (if x = JNull then Inr [] else ToString x) of
        Inl e \<Rightarrow> Inl e
      | Inr s \<Rightarrow>
          (if xs = [] then Inr s
           else (case join_elements xs of
                   Inl e \<Rightarrow> Inl e
                 | Inr r \<Rightarrow> Inr (s @ str '','' @ r))))"

definition ToString_value :: "json option \<Rightarrow> error + jsstring" where
  "ToString_value v = (case v of None \<Rightarrow> Inr (str ''undefined'') | Some j \<Rightarrow> ToString j)"

definition dec_val :: "jschar \<Rightarrow> nat option" where
  "dec_val c = (if 0x30 \<le> c \<and> c \<le> 0x39 then Some (unat c - 48) else None)"

definition hex_val :: "jschar \<Rightarrow> nat option" where
  "hex_val c =
     (if 0x30 \<le> c \<and> c \<le> 0x39 then Some (unat c - 48)
      else if 0x61 \<le> c \<and> c \<le> 0x66 then Some (unat c - 87)
      else if 0x41 \<le> c \<and> c \<le> 0x46 then Some (unat c - 55)
      else None)"

fun digit_prefix :: "(jschar \<Rightarrow> nat option) \<Rightarrow> jsstring \<Rightarrow> nat list" where
  "digit_prefix dv [] = []"
| "digit_prefix dv (c # cs) = (case dv c of None \<Rightarrow> [] | Some d \<Rightarrow> d # digit_prefix dv cs)"

definition radix_value :: "nat \<Rightarrow> nat list \<Rightarrow> nat" where
  "radix_value R ds = foldl (\<lambda>a d. a * R + d) 0 ds"

definition radix_int :: "int \<Rightarrow> nat list \<Rightarrow> int" where
  "radix_int R ds = foldl (\<lambda>a d. a * R + int d) 0 ds"

text \<open>
  \<open>parseInt(string)\<close> without a radix (ECMA-262, 19.2.5): skip leading white space,
  read a sign, switch to radix 16 after \<open>0x\<close> or \<open>0X\<close>, take the longest prefix of
  digits; no digit gives \<open>NaN\<close> (\<open>None\<close>). The integer is kept exact: the callers
  compare it with 0, 1 and 10, which rounding to a Number does not change, and
  otherwise read ratings and counts of rows.
\<close>

definition parseInt_string :: "jsstring \<Rightarrow> int option" where
  "parseInt_string inputString =
     (let S = dropWhile isWhiteSpace inputString;
          sign = (if S \<noteq> [] \<and> hd S = 0x2D then - 1 else 1);
          S1 = (if S \<noteq> [] \<and> (hd S = 0x2B \<or> hd S = 0x2D) then tl S else S);
          hex = (take 2 S1 = str ''0x'' \<or> take 2 S1 = str ''0X'');
          S2 = (if hex then drop 2 S1 else S1);
          Z = digit_prefix (if hex then hex_val else dec_val) S2
      in if Z = [] then None
         else Some (sign * radix_int (if hex then 16 else 10) Z))"

definition parseInt :: "json option \<Rightarrow> error + int option" where
  "parseInt v = (case ToString_value v of Inl e \<Rightarrow> Inl e | Inr s \<Rightarrow> Inr (parseInt_string s))"

text \<open>
  Truthiness of a decoded value (\<open>ToBoolean\<close>): \<open>null\<close>, \<open>false\<close>, zero and the
  empty string are falsy, every other number, string, array and object is truthy;
  \<open>undefined\<close> is falsy.
\<close>

fun truthy :: "json \<Rightarrow> bool" where
  "truthy JNull = False"
| "truthy (JBool b) = b"
| "truthy (JNum x) = (digits x \<noteq> [])"
| "truthy (JInf negative) = True"
| "truthy (JStr s) = (s \<noteq> [])"
| "truthy (JArr xs) = True"
| "truthy (JObj kv) = True"

text \<open>\<open>a || b\<close>, where \<open>a\<close> was read from a property.\<close>

definition js_or :: "json option \<Rightarrow> json \<Rightarrow> json" where
  "js_or a b = (case a of None \<Rightarrow> b | Some v \<Rightarrow> if truthy v then v else b)"

text \<open>
  Reading the property \<open>k\<close> of a value other than \<open>null\<close> (on \<open>null\<close> the read throws
  \<open>TypeError\<close>, which the callers below write out). An object gives its member or
  \<open>undefined\<close>. The sanitizer reads only the names of the analysis schema, none of which
  the prototypes of strings, numbers, booleans, arrays or objects define, so every other
  value gives \<open>undefined\<close>.
\<close>

definition member :: "json \<Rightarrow> jsstring \<Rightarrow> json option" where
  "member v k = (case v of JObj kv \<Rightarrow> map_of kv k | _ \<Rightarrow> None)"

text \<open>\<open>Array.isArray(x) ? x : []\<close>.\<close>

definition array_or_empty :: "json option \<Rightarrow> json list" where
  "array_or_empty x = (case x of Some (JArr xs) \<Rightarrow> xs | _ \<Rightarrow> [])"

text \<open>\<open>xs.map(f)\<close> with a callback that may throw: the first exception ends the map.\<close>

fun mapE :: "('a \<Rightarrow> error + 'b) \<Rightarrow> 'a list \<Rightarrow> error + 'b list" where
  "mapE f [] = Inr []"
| "mapE f (x # xs) =
     (case f x of
        Inl e \<Rightarrow> Inl e
      | Inr y \<Rightarrow> (case mapE f xs of Inl e \<Rightarrow> Inl e | Inr ys \<Rightarrow> Inr (y # ys)))"

subsection \<open>Binary64\<close>

text \<open>
  The Number value of a decimal is the binary64 nearest to it, ties going to the even
  significand; a decimal at or beyond the middle between the largest binary64 and
  \<open>2\<^sup>1\<^sup>0\<^sup>2\<^sup>4\<close> gives an infinity. All of it is integer arithmetic on a fraction
  \<open>(numerator, denominator)\<close>: \<open>binary64\<close> gives the significand \<open>M\<close> and the
  exponent \<open>q\<close> of the value \<open>M \<times> 2\<^sup>q\<close>, with \<open>M < 2\<^sup>5\<^sup>3\<close> and \<open>q \<ge> -1074\<close>,
  and \<open>None\<close> for an infinity. \<open>shortest\<close> finds the decimal that \<open>Number::toString\<close>
  prints for it: the fewest digits, at most 17, whose Number value it is, and of those
  the nearest. \<open>decimal_binary64 m e\<close> is the Number value of \<open>m \<times> 10\<^sup>e\<close>; a decimal
  of \<open>10\<^sup>3\<^sup>1\<^sup>0\<close> or more is infinite and one below \<open>10\<^sup>-\<^sup>3\<^sup>3\<^sup>1\<close> is zero whatever
  its digits.
\<close>

function bit_length :: "int \<Rightarrow> nat" where
  "bit_length n = (if n \<le> 0 then 0 else Suc (bit_length (n div 2)))"
  by pat_completeness auto
termination
  by (relation "measure nat") auto

function decimal_length :: "int \<Rightarrow> nat" where
  "decimal_length n = (if n < 10 then 1 else Suc (decimal_length (n div 10)))"
  by pat_completeness auto
termination
  by (relation "measure nat") auto

function int_digits :: "int \<Rightarrow> nat list" where
  "int_digits n = (if n < 10 then [nat n] else int_digits (n div 10) @ [nat (n mod 10)])"
  by pat_completeness auto
termination
  by (relation "measure nat") auto

definition scale2 :: "int \<times> int \<Rightarrow> int \<Rightarrow> int \<times> int" where
  "scale2 x k = (if 0 \<le> k then (fst x * 2 ^ nat k, snd x) else (fst x, snd x * 2 ^ nat (- k)))"

definition scale10 :: "int \<times> int \<Rightarrow> int \<Rightarrow> int \<times> int" where
  "scale10 x k = (if 0 \<le> k then (fst x * 10 ^ nat k, snd x) else (fst x, snd x * 10 ^ nat (- k)))"

definition round_half_even :: "int \<times> int \<Rightarrow> int" where
  "round_half_even x =
     (let q = fst x div snd x; r = fst x mod snd x
      in if 2 * r < snd x then q else if snd x < 2 * r then q + 1
         else if even q then q else q + 1)"

definition binary_exponent :: "int \<times> int \<Rightarrow> int" where
  "binary_exponent x =
     (let k = int (bit_length (fst x)) - int (bit_length (snd x))
      in if snd (scale2 x (- k)) \<le> fst (scale2 x (- k)) then k else k - 1)"

definition binary64 :: "int \<times> int \<Rightarrow> (int \<times> int) option" where
  "binary64 x =
     (if fst x \<le> 0 then Some (0, 0)
      else
        (let k = binary_exponent x;
             q = max (k - 52) (- 1074);
             M = round_half_even (scale2 x (- q))
         in if 1024 \<le> k \<or> (M = 2 ^ 53 \<and> q = 971) then None
            else if M = 0 then Some (0, 0)
            else if M = 2 ^ 53 then Some (2 ^ 52, q + 1)
            else Some (M, q)))"

definition decimal_exponent :: "int \<times> int \<Rightarrow> int" where
  "decimal_exponent x =
     (let k = int (decimal_length (fst x)) - int (decimal_length (snd x))
      in if snd (scale10 x (- k)) \<le> fst (scale10 x (- k)) then k else k - 1)"

fun shortest :: "nat \<Rightarrow> int \<times> int \<Rightarrow> nat \<Rightarrow> int \<times> int" where
  "shortest 0 d n = (0, 0)"
| "shortest (Suc fuel) d n =
     (let x = scale2 (fst d, 1) (snd d);
          j = decimal_exponent x - (int n - 1);
          y = scale10 x (- j);
          lo = fst y div snd y;
          hi = lo + 1;
          lo_ok = (binary64 (scale10 (lo, 1) j) = Some d);
          hi_ok = (binary64 (scale10 (hi, 1) j) = Some d);
          nearer_lo = (2 * fst y \<le> (2 * lo + 1) * snd y)
      in if lo_ok \<and> (nearer_lo \<or> \<not> hi_ok) then (lo, j)
         else if hi_ok then (hi, j)
         else shortest fuel d (Suc n))"

definition decimal_of :: "bool \<Rightarrow> int \<times> int \<Rightarrow> jsnum" where
  "decimal_of ng c =
     (let ds = int_digits (fst c)
      in Num ng (rev (dropWhile (\<lambda>d. d = 0) (rev ds))) (int (length ds) + snd c))"

definition decimal_binary64 :: "int \<Rightarrow> int \<Rightarrow> (int \<times> int) option" where
  "decimal_binary64 m e =
     (if m \<le> 0 then Some (0, 0)
      else
        (let n = int (decimal_length m) + e
         in if 310 < n then None
            else if n < - 330 then Some (0, 0)
            else binary64 (scale10 (m, 1) e)))"

definition number_value :: "bool \<Rightarrow> int \<Rightarrow> int \<Rightarrow> json" where
  "number_value ng m e =
     (case decimal_binary64 m e of
        None \<Rightarrow> JInf ng
      | Some d \<Rightarrow>
          if fst d = 0 then JNum (Num False [] 0)
          else JNum (decimal_of ng (shortest 17 d 1)))"

subsection \<open>Numeric comparison\<close>

text \<open>
  \<open>ToNumber\<close> of a value, as far as \<open>v > N\<close> needs it: \<open>NaN\<close>, an infinity, or the
  decimal \<open>m \<times> 10\<^sup>e\<close> whose Number value it is. \<open>StringToNumber\<close> trims white
  space, reads the empty string as 0, and accepts \<open>Infinity\<close> with a sign, a binary,
  octal or hexadecimal integer literal, or a decimal literal with an optional fraction
  and exponent; anything else is \<open>NaN\<close>.
\<close>

datatype numval = NaN | Infinity bool | Finite int int

definition oct_val :: "jschar \<Rightarrow> nat option" where
  "oct_val c = (if 0x30 \<le> c \<and> c \<le> 0x37 then Some (unat c - 48) else None)"

definition bin_val :: "jschar \<Rightarrow> nat option" where
  "bin_val c = (if c = 0x30 \<or> c = 0x31 then Some (unat c - 48) else None)"

definition all_digits :: "(jschar \<Rightarrow> nat option) \<Rightarrow> jsstring \<Rightarrow> bool" where
  "all_digits dv s \<longleftrightarrow> s \<noteq> [] \<and> length (digit_prefix dv s) = length s"

definition radix_literal :: "int \<Rightarrow> (jschar \<Rightarrow> nat option) \<Rightarrow> jsstring \<Rightarrow> numval" where
  "radix_literal R dv s =
     (if all_digits dv s then Finite (radix_int R (digit_prefix dv s)) 0 else NaN)"

definition exponent_part :: "jsstring \<Rightarrow> int option" where
  "exponent_part s =
     (if s = [] then Some 0
      else if hd s = 0x65 \<or> hd s = 0x45 then
        (let t = tl s;
             sg = (if t \<noteq> [] \<and> hd t = 0x2D then - 1 else 1);
             u = (if t \<noteq> [] \<and> (hd t = 0x2B \<or> hd t = 0x2D) then tl t else t)
         in if all_digits dec_val u then Some (sg * radix_int 10 (digit_prefix dec_val u))
            else None)
      else None)"

definition unsigned_decimal :: "jsstring \<Rightarrow> numval" where
  "unsigned_decimal s =
     (if s = str ''Infinity'' then Infinity False
      else
        (let ip = digit_prefix dec_val s;
             r1 = drop (length ip) s;
             dot = (r1 \<noteq> [] \<and> hd r1 = 0x2E);
             fp = (if dot then digit_prefix dec_val (tl r1) else []);
             r2 = (if dot then drop (length fp) (tl r1) else r1)
         in if ip = [] \<and> fp = [] then NaN
            else (case exponent_part r2 of
                    None \<Rightarrow> NaN
                  | Some e \<Rightarrow> Finite (radix_int 10 (ip @ fp)) (e - int (length fp)))))"

definition negate :: "numval \<Rightarrow> numval" where
  "negate v = (case v of NaN \<Rightarrow> NaN | Infinity b \<Rightarrow> Infinity (\<not> b) | Finite m e \<Rightarrow> Finite (- m) e)"

definition StringToNumber :: "jsstring \<Rightarrow> numval" where
  "StringToNumber s =
     (let t = trim s in
      if t = [] then Finite 0 0
      else if take 2 t = str ''0x'' \<or> take 2 t = str ''0X'' then radix_literal 16 hex_val (drop 2 t)
      else if take 2 t = str ''0o'' \<or> take 2 t = str ''0O'' then radix_literal 8 oct_val (drop 2 t)
      else if take 2 t = str ''0b'' \<or> take 2 t = str ''0B'' then radix_literal 2 bin_val (drop 2 t)
      else if hd t = 0x2D then negate (unsigned_decimal (tl t))
      else if hd t = 0x2B then unsigned_decimal (tl t)
      else unsigned_decimal t)"

text \<open>
  \<open>ToNumber\<close>: \<open>undefined\<close> is \<open>NaN\<close>, \<open>null\<close> and \<open>false\<close> are 0, \<open>true\<close> is 1;
  an array or object is first converted to a primitive, which for decoded values is
  its string form (\<open>valueOf\<close> returns the object itself) and may throw.
\<close>

definition ToNumber :: "json option \<Rightarrow> error + numval" where
  "ToNumber v =
     (case v of
        None \<Rightarrow> Inr NaN
      | Some JNull \<Rightarrow> Inr (Finite 0 0)
      | Some (JBool b) \<Rightarrow> Inr (Finite (if b then 1 else 0) 0)
      | Some (JNum x) \<Rightarrow>
          Inr (Finite ((if neg x then - 1 else 1) * radix_int 10 (digits x))
                      (point x - int (length (digits x))))
      | Some (JInf negative) \<Rightarrow> Inr (Infinity negative)
      | Some (JStr s) \<Rightarrow> Inr (StringToNumber s)
      | Some j \<Rightarrow> (case ToString j of Inl e \<Rightarrow> Inl e | Inr s \<Rightarrow> Inr (StringToNumber s)))"

text \<open>
  \<open>v > N\<close> for a non-negative integer literal \<open>N\<close>: \<open>NaN\<close> compares false, and a
  decimal compares by its Number value.
\<close>

definition numval_gt :: "numval \<Rightarrow> nat \<Rightarrow> bool" where
  "numval_gt v N =
     (case v of
        NaN \<Rightarrow> False
      | Infinity b \<Rightarrow> \<not> b
      | Finite m e \<Rightarrow>
          if m \<le> 0 then False
          else
            (case decimal_binary64 m e of
               None \<Rightarrow> True
             | Some d \<Rightarrow>
                 int N * snd (scale2 (fst d, 1) (snd d)) < fst (scale2 (fst d, 1) (snd d))))"

text \<open>
  \<open>v.length > N\<close> for a truthy value \<open>v\<close>: a string or array has its length, an
  object its member \<open>length\<close> if any, a number or boolean has none (\<open>undefined > N\<close> is
  false).
\<close>

definition length_gt :: "json \<Rightarrow> nat \<Rightarrow> error + bool" where
  "length_gt v N =
     (case v of
        JStr s \<Rightarrow> Inr (N < length s)
      | JArr xs \<Rightarrow> Inr (N < length xs)
      | JObj kv \<Rightarrow> (case ToNumber (map_of kv (str ''length'')) of
                      Inl e \<Rightarrow> Inl e
                    | Inr x \<Rightarrow> Inr (numval_gt x N))
      | _ \<Rightarrow> Inr False)"

subsection \<open>Numbers from integers\<close>

definition jsnum_of_nat :: "nat \<Rightarrow> jsnum" where
  "jsnum_of_nat n =
     (if n = 0 then Num False [] 0
      else Num False (rev (dropWhile (\<lambda>d. d = 0) (rev (nat_digits n))))
                     (int (length (nat_digits n))))"

definition jsnum_of_int :: "int \<Rightarrow> jsnum" where
  "jsnum_of_int i =
     (if i < 0 then Num True (digits (jsnum_of_nat (nat (- i)))) (point (jsnum_of_nat (nat (- i))))
      else jsnum_of_nat (nat i))"

section \<open>The response sanitizer\<close>

text \<open>
  \<open>validateRating\<close>:
  \<^verbatim>\<open>const numRating = parseInt(rating);
  if (isNaN(numRating) || numRating < 1) return 1;
  if (numRating > 10) return 10;
  return numRating;\<close>
\<close>

definition validateRating :: "json option \<Rightarrow> error + int" where
  "validateRating rating =
     (case parseInt rating of
        Inl e \<Rightarrow> Inl e
      | Inr numRating \<Rightarrow>
          (case numRating of
             None \<Rightarrow> Inr 1
           | Some n \<Rightarrow> if n < 1 then Inr 1 else if n > 10 then Inr 10 else Inr n))"

text \<open>
  The four \<open>map\<close> callbacks of \<open>validateAndSanitizeAnalysis\<close>. Each reads properties
  of its element first, which throws when the element is \<open>null\<close>.
  \<^verbatim>\<open>exp => ({ role: exp.role || 'Not specified', company: exp.company || 'Not specified',
    duration: exp.duration || 'Not specified',
    description: Array.isArray(exp.description) ? exp.description :
                 (exp.description ? [exp.description] : ['No description provided']) })\<close>
\<close>

definition sanitize_work_experience :: "json \<Rightarrow> error + json" where
  "sanitize_work_experience exp =
     (if exp = JNull then Inl TypeError
      else Inr (JObj
        [(str ''role'', js_or (member exp (str ''role'')) (JStr (str ''Not specified''))),
         (str ''company'', js_or (member exp (str ''company'')) (JStr (str ''Not specified''))),
         (str ''duration'', js_or (member exp (str ''duration'')) (JStr (str ''Not specified''))),
         (str ''description'',
            (case member exp (str ''description'') of
               Some (JArr ds) \<Rightarrow> JArr ds
             | d \<Rightarrow> JArr [js_or d (JStr (str ''No description provided''))]))]))"

definition sanitize_education :: "json \<Rightarrow> error + json" where
  "sanitize_education edu =
     (if edu = JNull then Inl TypeError
      else Inr (JObj
        [(str ''degree'', js_or (member edu (str ''degree'')) (JStr (str ''Not specified''))),
         (str ''institution'',
            js_or (member edu (str ''institution'')) (JStr (str ''Not specified''))),
         (str ''graduation_year'',
            js_or (member edu (str ''graduation_year'')) (JStr (str ''Not specified'')))]))"

definition sanitize_project :: "json \<Rightarrow> error + json" where
  "sanitize_project project =
     (if project = JNull then Inl TypeError
      else Inr (JObj
        [(str ''name'', js_or (member project (str ''name'')) (JStr (str ''Unnamed Project''))),
         (str ''description'',
            js_or (member project (str ''description'')) (JStr (str ''No description provided''))),
         (str ''technologies'', JArr (array_or_empty (member project (str ''technologies''))))]))"

definition sanitize_certification :: "json \<Rightarrow> error + json" where
  "sanitize_certification cert =
     (if cert = JNull then Inl TypeError
      else Inr (JObj
        [(str ''name'', js_or (member cert (str ''name'')) (JStr (str ''Not specified''))),
         (str ''issuer'', js_or (member cert (str ''issuer'')) (JStr (str ''Not specified''))),
         (str ''year'', js_or (member cert (str ''year'')) (JStr (str ''Not specified'')))]))"

text \<open>
  The length caps:
  \<^verbatim>\<open>if (v && v.length > limit) { v = v.substring(0, keep) + '...'; }\<close>
  Only a string has \<open>substring\<close>; on any other value the call throws \<open>TypeError\<close>.
\<close>

definition truncate_field :: "nat \<Rightarrow> nat \<Rightarrow> json \<Rightarrow> error + json" where
  "truncate_field limit keep v =
     (if truthy v then
        (case length_gt v limit of
           Inl e \<Rightarrow> Inl e
         | Inr longer \<Rightarrow>
             if longer then
               (case v of
                  JStr s \<Rightarrow> Inr (JStr (take keep s @ str ''...''))
                | _ \<Rightarrow> Inl TypeError)
             else Inr v)
      else Inr v)"

text \<open>
  \<open>validateAndSanitizeAnalysis(analysis, fileName)\<close>. The file name is only logged.
  The object literal is evaluated first (its only call that can throw is
  \<open>validateRating\<close>), then the four maps, then the two caps; the result lists the
  members in the order of the literal.
\<close>

definition validateAndSanitizeAnalysis :: "json \<Rightarrow> jsstring \<Rightarrow> error + json" where
  "validateAndSanitizeAnalysis analysis fileName =
     (if analysis = JNull then Inl TypeError
      else
       (case validateRating (member analysis (str ''resume_rating'')) of
          Inl e \<Rightarrow> Inl e
        | Inr resume_rating \<Rightarrow>
       (case mapE sanitize_work_experience
               (array_or_empty (member analysis (str ''work_experience''))) of
          Inl e \<Rightarrow> Inl e
        | Inr work_experience \<Rightarrow>
       (case mapE sanitize_education (array_or_empty (member analysis (str ''education''))) of
          Inl e \<Rightarrow> Inl e
        | Inr education \<Rightarrow>
       (case mapE sanitize_project (array_or_empty (member analysis (str ''projects''))) of
          Inl e \<Rightarrow> Inl e
        | Inr projects \<Rightarrow>
       (case mapE sanitize_certification
               (array_or_empty (member analysis (str ''certifications''))) of
          Inl e \<Rightarrow> Inl e
        | Inr certifications \<Rightarrow>
       (case truncate_field 1000 997 (js_or (member analysis (str ''summary'')) JNull) of
          Inl e \<Rightarrow> Inl e
        | Inr summary \<Rightarrow>
       (case truncate_field 2000 1997
               (js_or (member analysis (str ''improvement_areas''))
                      (JStr (str ''No specific improvement areas identified.''))) of
          Inl e \<Rightarrow> Inl e
        | Inr improvement_areas \<Rightarrow>
          Inr (JObj
            [(str ''name'', js_or (member analysis (str ''name'')) JNull),
             (str ''email'', js_or (member analysis (str ''email'')) JNull),
             (str ''phone'', js_or (member analysis (str ''phone'')) JNull),
             (str ''linkedin_url'', js_or (member analysis (str ''linkedin_url'')) JNull),
             (str ''portfolio_url'', js_or (member analysis (str ''portfolio_url'')) JNull),
             (str ''summary'', summary),
             (str ''work_experience'', JArr work_experience),
             (str ''education'', JArr education),
             (str ''technical_skills'',
                JArr (array_or_empty (member analysis (str ''technical_skills'')))),
             (str ''soft_skills'', JArr (array_or_empty (member analysis (str ''soft_skills'')))),
             (str ''projects'', JArr projects),
             (str ''certifications'', JArr certifications),
             (str ''resume_rating'', JNum (jsnum_of_int resume_rating)),
             (str ''improvement_areas'', improvement_areas),
             (str ''upskill_suggestions'',
                JArr (array_or_empty (member analysis (str ''upskill_suggestions''))))])))))))))"

section \<open>JSON text\<close>

text \<open>
  \<open>JSON.stringify(value)\<close> of a decoded value, without replacer or indentation
  (ECMA-262, 25.5.2); an infinite number prints as \<open>null\<close>. \<open>QuoteJSONString\<close>
  escapes the quote, the backslash and the control characters, and writes a surrogate
  that is not part of a pair as \<open>\uXXXX\<close>.
\<close>

definition hex_char :: "nat \<Rightarrow> jschar" where
  "hex_char d = (if d < 10 then of_nat (48 + d) else of_nat (87 + d))"

definition unicode_escape :: "jschar \<Rightarrow> jsstring" where
  "unicode_escape c =
     [0x5C, 0x75, hex_char (unat c div 4096), hex_char (unat c div 256 mod 16),
      hex_char (unat c div 16 mod 16), hex_char (unat c mod 16)]"

definition is_high_surrogate :: "jschar \<Rightarrow> bool" where
  "is_high_surrogate c \<longleftrightarrow> 0xD800 \<le> c \<and> c \<le> 0xDBFF"

definition is_low_surrogate :: "jschar \<Rightarrow> bool" where
  "is_low_surrogate c \<longleftrightarrow> 0xDC00 \<le> c \<and> c \<le> 0xDFFF"

fun quote_chars :: "jsstring \<Rightarrow> jsstring" where
  "quote_chars [] = []"
| "quote_chars (c # cs) =
     (if c = 0x08 then [0x5C, 0x62] @ quote_chars cs
      else if c = 0x09 then [0x5C, 0x74] @ quote_chars cs
      else if c = 0x0A then [0x5C, 0x6E] @ quote_chars cs
      else if c = 0x0C then [0x5C, 0x66] @ quote_chars cs
      else if c = 0x0D then [0x5C, 0x72] @ quote_chars cs
      else if c = 0x22 then [0x5C, 0x22] @ quote_chars cs
      else if c = 0x5C then [0x5C, 0x5C] @ quote_chars cs
      else if c < 0x20 then unicode_escape c @ quote_chars cs
      else if is_high_surrogate c then
        (case cs of
           [] \<Rightarrow> unicode_escape c
         | d # ds \<Rightarrow>
             if is_low_surrogate d then c # d # quote_chars ds
             else unicode_escape c @ quote_chars cs)
      else if is_low_surrogate c then unicode_escape c @ quote_chars cs
      else c # quote_chars cs)"

definition QuoteJSONString :: "jsstring \<Rightarrow> jsstring" where
  "QuoteJSONString s = 0x22 # quote_chars s @ [0x22]"

fun JSON_stringify :: "json \<Rightarrow> jsstring"
  and stringify_elements :: "json list \<Rightarrow> jsstring"
  and stringify_members :: "(jsstring \<times> json) list \<Rightarrow> jsstring" where
  "JSON_stringify JNull = str ''null''"
| "JSON_stringify (JBool b) = (if b then str ''true'' else str ''false'')"
| "JSON_stringify (JNum x) = Number_toString x"
| "JSON_stringify (JInf negative) = str ''null''"
| "JSON_stringify (JStr s) = QuoteJSONString s"
| "JSON_stringify (JArr xs) = 0x5B # stringify_elements xs @ [0x5D]"
| "JSON_stringify (JObj kv) = 0x7B # stringify_members kv @ [0x7D]"
| "stringify_elements [] = []"
| "stringify_elements (x # xs) =
     (if xs = [] then JSON_stringify x
      else JSON_stringify x @ 0x2C # stringify_elements xs)"
| "stringify_members [] = []"
| "stringify_members (m # ms) =
     (if ms = [] then QuoteJSONString (fst m) @ 0x3A # JSON_stringify (snd m)
      else QuoteJSONString (fst m) @ 0x3A # JSON_stringify (snd m) @ 0x2C # stringify_members ms)"

text \<open>
  \<open>JSON.parse(text)\<close> (ECMA-404): white space is TAB, LF, CR and SP; a string may
  not hold a raw control character; a number has no leading zero, and digits after a
  point or an exponent mark.
\<close>

definition json_ws :: "jschar \<Rightarrow> bool" where
  "json_ws c \<longleftrightarrow> c = 0x09 \<or> c = 0x0A \<or> c = 0x0D \<or> c = 0x20"

definition skip_ws :: "jsstring \<Rightarrow> jsstring" where
  "skip_ws s = dropWhile json_ws s"

definition hex4 :: "jschar \<Rightarrow> jschar \<Rightarrow> jschar \<Rightarrow> jschar \<Rightarrow> jschar option" where
  "hex4 a b c d =
     (case (hex_val a, hex_val b, hex_val c, hex_val d) of
        (Some x, Some y, Some z, Some w) \<Rightarrow> Some (of_nat (x * 4096 + y * 256 + z * 16 + w))
      | _ \<Rightarrow> None)"

definition simple_escape :: "jschar \<Rightarrow> jschar option" where
  "simple_escape e =
     (if e = 0x22 then Some 0x22
      else if e = 0x5C then Some 0x5C
      else if e = 0x2F then Some 0x2F
      else if e = 0x62 then Some 0x08
      else if e = 0x66 then Some 0x0C
      else if e = 0x6E then Some 0x0A
      else if e = 0x72 then Some 0x0D
      else if e = 0x74 then Some 0x09
      else None)"

definition cons_result :: "'a \<Rightarrow> ('a list \<times> 'b) option \<Rightarrow> ('a list \<times> 'b) option" where
  "cons_result x r = (case r of None \<Rightarrow> None | Some (xs, rest) \<Rightarrow> Some (x # xs, rest))"

text \<open>The characters of a string literal after its opening quote, and what follows it.\<close>

fun parse_string_chars :: "jsstring \<Rightarrow> (jsstring \<times> jsstring) option" where
  "parse_string_chars [] = None"
| "parse_string_chars (c # cs) =
     (if c = 0x22 then Some ([], cs)
      else if c = 0x5C then
        (case cs of
           [] \<Rightarrow> None
         | e # es \<Rightarrow>
             if e = 0x75 then
               (case es of
                  h1 # h2 # h3 # h4 # r \<Rightarrow>
                    (case hex4 h1 h2 h3 h4 of
                       None \<Rightarrow> None
                     | Some u \<Rightarrow> cons_result u (parse_string_chars r))
                | _ \<Rightarrow> None)
             else
               (case simple_escape e of
                  None \<Rightarrow> None
                | Some u \<Rightarrow> cons_result u (parse_string_chars es)))
      else if c < 0x20 then None
      else cons_result c (parse_string_chars cs))"

text \<open>
  The value of a number literal with the digits \<open>ds\<close> and the point after the first
  \<open>p\<close> of them: the Number value of that decimal.
\<close>

definition make_num :: "bool \<Rightarrow> nat list \<Rightarrow> int \<Rightarrow> json" where
  "make_num ng ds p = number_value ng (radix_int 10 ds) (p - int (length ds))"

definition parse_exponent :: "jsstring \<Rightarrow> (int \<times> jsstring) option" where
  "parse_exponent s =
     (if s \<noteq> [] \<and> (hd s = 0x65 \<or> hd s = 0x45) then
        (let t = tl s;
             sg = (if t \<noteq> [] \<and> hd t = 0x2D then - 1 else 1);
             u = (if t \<noteq> [] \<and> (hd t = 0x2B \<or> hd t = 0x2D) then tl t else t);
             ep = digit_prefix dec_val u
         in if ep = [] then None
            else Some (sg * radix_int 10 ep, drop (length ep) u))
      else Some (0, s))"

definition parse_number :: "jsstring \<Rightarrow> (json \<times> jsstring) option" where
  "parse_number s =
     (let ng = (s \<noteq> [] \<and> hd s = 0x2D);
          s1 = (if ng then tl s else s);
          ip = digit_prefix dec_val s1;
          r1 = drop (length ip) s1;
          dot = (r1 \<noteq> [] \<and> hd r1 = 0x2E);
          fp = (if dot then digit_prefix dec_val (tl r1) else []);
          r2 = (if dot then drop (length fp) (tl r1) else r1)
      in if ip = [] \<or> (hd ip = 0 \<and> length ip \<noteq> 1) \<or> (dot \<and> fp = []) then None
         else (case parse_exponent r2 of
                 None \<Rightarrow> None
               | Some (e, r3) \<Rightarrow> Some (make_num ng (ip @ fp) (int (length ip) + e), r3)))"

text \<open>
  An object keeps one member per name: a repeated name replaces the value and keeps
  the place of the first. Its members are enumerated with the array indices (canonical
  decimal strings below \<open>2\<^sup>3\<^sup>2 - 1\<close>) first, in ascending order, then the other
  names in the order of the text.
\<close>

fun set_member :: "jsstring \<Rightarrow> json \<Rightarrow> (jsstring \<times> json) list \<Rightarrow> (jsstring \<times> json) list" where
  "set_member k v [] = [(k, v)]"
| "set_member k v (m # ms) = (if fst m = k then (k, v) # ms else m # set_member k v ms)"

definition array_index :: "jsstring \<Rightarrow> int option" where
  "array_index k =
     (let ds = digit_prefix dec_val k in
      if k \<noteq> [] \<and> length ds = length k \<and> (0 < hd ds \<or> length ds = 1)
         \<and> radix_int 10 ds < 4294967295
      then Some (radix_int 10 ds) else None)"

definition index_key :: "jsstring \<times> json \<Rightarrow> int" where
  "index_key m = (case array_index (fst m) of None \<Rightarrow> 0 | Some i \<Rightarrow> i)"

definition property_order :: "(jsstring \<times> json) list \<Rightarrow> (jsstring \<times> json) list" where
  "property_order kv =
     sort_key index_key (filter (\<lambda>m. array_index (fst m) \<noteq> None) kv)
     @ filter (\<lambda>m. array_index (fst m) = None) kv"

definition make_object :: "(jsstring \<times> json) list \<Rightarrow> json" where
  "make_object ms = JObj (property_order (foldl (\<lambda>acc m. set_member (fst m) (snd m) acc) [] ms))"

text \<open>
  The recursive descent, with fuel for the nesting; \<open>JSON_parse\<close> gives it the length
  of the text, which no text exhausts. \<open>parse_elements\<close> reads the elements of a
  non-empty array up to its bracket, \<open>parse_members\<close> the members of a non-empty object.
\<close>

fun parse_value :: "nat \<Rightarrow> jsstring \<Rightarrow> (json \<times> jsstring) option"
  and parse_elements :: "nat \<Rightarrow> jsstring \<Rightarrow> (json list \<times> jsstring) option"
  and parse_members :: "nat \<Rightarrow> jsstring \<Rightarrow> ((jsstring \<times> json) list \<times> jsstring) option" where
  "parse_value 0 s = None"
| "parse_value (Suc n) s =
     (case skip_ws s of
        [] \<Rightarrow> None
      | c # cs \<Rightarrow>
          if c = 0x5B then
            (case skip_ws cs of
               [] \<Rightarrow> None
             | d # ds \<Rightarrow>
                 if d = 0x5D then Some (JArr [], ds)
                 else (case parse_elements n (d # ds) of
                         None \<Rightarrow> None
                       | Some (vs, r) \<Rightarrow> Some (JArr vs, r)))
          else if c = 0x7B then
            (case skip_ws cs of
               [] \<Rightarrow> None
             | d # ds \<Rightarrow>
                 if d = 0x7D then Some (JObj [], ds)
                 else (case parse_members n (d # ds) of
                         None \<Rightarrow> None
                       | Some (ms, r) \<Rightarrow> Some (make_object ms, r)))
          else if c = 0x22 then
            (case parse_string_chars cs of
               None \<Rightarrow> None
             | Some (t, r) \<Rightarrow> Some (JStr t, r))
          else if take 4 (c # cs) = str ''null'' then Some (JNull, drop 4 (c # cs))
          else if take 4 (c # cs) = str ''true'' then Some (JBool True, drop 4 (c # cs))
          else if take 5 (c # cs) = str ''false'' then Some (JBool False, drop 5 (c # cs))
          else parse_number (c # cs))"
| "parse_elements 0 s = None"
| "parse_elements (Suc n) s =
     (case parse_value n s of
        None \<Rightarrow> None
      | Some (v, r) \<Rightarrow>
          (case skip_ws r of
             [] \<Rightarrow> None
           | c # cs \<Rightarrow>
               if c = 0x2C then cons_result v (parse_elements n cs)
               else if c = 0x5D then Some ([v], cs)
               else None))"
| "parse_members 0 s = None"
| "parse_members (Suc n) s =
     (case skip_ws s of
        [] \<Rightarrow> None
      | c # cs \<Rightarrow>
          if c = 0x22 then
            (case parse_string_chars cs of
               None \<Rightarrow> None
             | Some (k, r) \<Rightarrow>
                 (case skip_ws r of
                    [] \<Rightarrow> None
                  | d # ds \<Rightarrow>
                      if d = 0x3A then
                        (case parse_value n ds of
                           None \<Rightarrow> None
                         | Some (v, r2) \<Rightarrow>
                             (case skip_ws r2 of
                                [] \<Rightarrow> None
                              | e # es \<Rightarrow>
                                  if e = 0x2C then cons_result (k, v) (parse_members n es)
                                  else if e = 0x7D then Some ([(k, v)], es)
                                  else None))
                      else None))
          else None)"

definition JSON_parse :: "jsstring \<Rightarrow> error + json" where
  "JSON_parse text =
     (case parse_value (length text) text of
        None \<Rightarrow> Inl SyntaxError
      | Some (v, rest) \<Rightarrow> if skip_ws rest = [] then Inr v else Inl SyntaxError)"

section \<open>The analysis service\<close>

text \<open>\<open>s.includes(t)\<close>, \<open>s.indexOf(c)\<close>, \<open>s.lastIndexOf(c)\<close> and \<open>s.substring(a, b)\<close>.\<close>

fun string_includes :: "jsstring \<Rightarrow> jsstring \<Rightarrow> bool" where
  "string_includes [] t = (t = [])"
| "string_includes (c # cs) t = (take (length t) (c # cs) = t \<or> string_includes cs t)"

fun indexOf :: "jsstring \<Rightarrow> jschar \<Rightarrow> nat option" where
  "indexOf [] c = None"
| "indexOf (x # xs) c = (if x = c then Some 0 else map_option Suc (indexOf xs c))"

definition lastIndexOf :: "jsstring \<Rightarrow> jschar \<Rightarrow> nat option" where
  "lastIndexOf s c = map_option (\<lambda>i. length s - 1 - i) (indexOf (rev s) c)"

definition substring :: "jsstring \<Rightarrow> nat \<Rightarrow> nat \<Rightarrow> jsstring" where
  "substring s a b = take (max a b - min a b) (drop (min a b) s)"

text \<open>
  The PDF library is a collaborator: for the uploaded buffer it either resolves with
  data whose \<open>text\<close> is a string or missing, or rejects with an error message.
  \<open>extractTextFromPDF\<close> turns every failure into an \<open>AppError\<close> with status 400.
\<close>

datatype pdf_outcome = PdfData "jsstring option" | PdfError jsstring

definition extractTextFromPDF :: "pdf_outcome \<Rightarrow> jsstring \<Rightarrow> error + jsstring" where
  "extractTextFromPDF pdf fileName =
     (case pdf of
        PdfData extractedText \<Rightarrow>
          (case extractedText of
             None \<Rightarrow> Inl (AppError (str ''PDF appears to be empty or contains only images. Please upload a PDF with text content.'') 400)
           | Some text \<Rightarrow>
               if text = [] \<or> length (trim text) = 0 then
                 Inl (AppError (str ''PDF appears to be empty or contains only images. Please upload a PDF with text content.'') 400)
               else if length (trim text) < 50 then
                 Inl (AppError (str ''PDF contains very little text content. Please ensure the PDF is a proper resume document.'') 400)
               else Inr text)
      | PdfError message \<Rightarrow>
          if string_includes message (str ''Invalid PDF'') then
            Inl (AppError (str ''Invalid PDF file format. Please upload a valid PDF document.'') 400)
          else if string_includes message (str ''password'') \<or> string_includes message (str ''encrypted'') then
            Inl (AppError (str ''PDF is password protected or encrypted. Please upload an unprotected PDF.'') 400)
          else if string_includes message (str ''damaged'') \<or> string_includes message (str ''corrupted'') then
            Inl (AppError (str ''PDF file appears to be corrupted. Please try uploading a different file.'') 400)
          else
            Inl (AppError (str ''PDF parsing failed. Please ensure the file is a valid PDF document.'') 400))"

text \<open>
  \<open>s.replace(/FENCE\n?/g, '')\<close>: every occurrence of the fence, with the line feed
  after it if there is one, is removed, scanning from the left.
\<close>

function remove_fence :: "jsstring \<Rightarrow> jsstring \<Rightarrow> jsstring" where
  "remove_fence fence [] = []"
| "remove_fence fence (c # cs) =
     (if fence \<noteq> [] \<and> take (length fence) (c # cs) = fence then
        (let r = drop (length fence) (c # cs)
         in remove_fence fence (if r \<noteq> [] \<and> hd r = 0x0A then tl r else r))
      else c # remove_fence fence cs)"
  by pat_completeness auto
termination
  by (relation "measure (\<lambda>(fence, s). length s)") (auto simp: Let_def)

text \<open>
  The AI service is a collaborator: for the prompt built from the resume text it
  returns a response text, or the call throws an error with a message and possibly a
  code. \<open>analyzeWithAI\<close> strips code fences, takes the text from the first \<open>{\<close> to the
  last \<open>}\<close>, parses and sanitizes it. Its \<open>catch\<close> rethrows an \<open>AppError\<close> and maps
  every other error by its message; the \<open>TypeError\<close> of the sanitizer, whose message
  has none of the phrases looked for, ends in the last branch (503).
\<close>

datatype ai_outcome = AiText jsstring | AiError jsstring "jsstring option"

definition analyzeWithAI :: "bool \<Rightarrow> ai_outcome \<Rightarrow> jsstring \<Rightarrow> jsstring \<Rightarrow> error + json" where
  "analyzeWithAI api_key ai resumeText fileName =
     (if \<not> api_key then
        Inl (AppError (str ''Google AI API key not configured. Please contact support.'') 500)
      else
        (case ai of
           AiError message code \<Rightarrow>
             if string_includes message (str ''API key'') then
               Inl (AppError (str ''AI service configuration error. Please contact support.'') 500)
             else if string_includes message (str ''quota'') \<or> string_includes message (str ''QUOTA_EXCEEDED'') then
               Inl (AppError (str ''AI service temporarily unavailable due to usage limits. Please try again later.'') 503)
             else if string_includes message (str ''RATE_LIMIT'') then
               Inl (AppError (str ''Too many requests. Please wait a moment and try again.'') 429)
             else if string_includes message (str ''timeout'') \<or> code = Some (str ''ECONNRESET'') then
               Inl (AppError (str ''AI analysis is taking longer than expected. Please try again.'') 408)
             else
               Inl (AppError (str ''AI analysis service is temporarily unavailable. Please try again later.'') 503)
         | AiText aiResponse \<Rightarrow>
             (let cleanResponse =
                    remove_fence [0x60, 0x60, 0x60]
                      (remove_fence ([0x60, 0x60, 0x60] @ str ''json'') (trim aiResponse))
              in case (indexOf cleanResponse 0x7B, lastIndexOf cleanResponse 0x7D) of
                   (Some firstBrace, Some lastBrace) \<Rightarrow>
                     (case JSON_parse (substring cleanResponse firstBrace (lastBrace + 1)) of
                        Inl parseError \<Rightarrow>
                          Inl (AppError (str ''AI returned invalid JSON format. Please try again.'') 500)
                      | Inr analysisResult \<Rightarrow>
                          (case validateAndSanitizeAnalysis analysisResult fileName of
                             Inl error \<Rightarrow>
                               Inl (AppError (str ''AI analysis service is temporarily unavailable. Please try again later.'') 503)
                           | Inr sanitized \<Rightarrow> Inr sanitized))
                 | _ \<Rightarrow> Inl (AppError (str ''AI did not return a valid JSON response.'') 500))))"

text \<open>
  \<open>analyzeResume\<close>: extract, analyze, then add \<open>processed_at\<close> (the clock reading),
  \<open>file_name\<close> and \<open>text_length\<close> to the result.
\<close>

definition assign :: "jsstring \<Rightarrow> json \<Rightarrow> json \<Rightarrow> json" where
  "assign k v obj = (case obj of JObj kv \<Rightarrow> JObj (set_member k v kv) | other \<Rightarrow> other)"

definition analyzeResume ::
  "pdf_outcome \<Rightarrow> bool \<Rightarrow> ai_outcome \<Rightarrow> jsstring \<Rightarrow> jsstring \<Rightarrow> error + json" where
  "analyzeResume pdf api_key ai now fileName =
     (case extractTextFromPDF pdf fileName of
        Inl error \<Rightarrow> Inl error
      | Inr extractedText \<Rightarrow>
          (case analyzeWithAI api_key ai extractedText fileName of
             Inl error \<Rightarrow> Inl error
           | Inr analysisResult \<Rightarrow>
               Inr (assign (str ''text_length'') (JNum (jsnum_of_nat (length extractedText)))
                     (assign (str ''file_name'') (JStr fileName)
                       (assign (str ''processed_at'') (JStr now) analysisResult)))))"

section \<open>Storage\<close>

text \<open>
  The table \<open>resumes\<close> of \<open>db/index.js\<close>. The columns that the list query selects
  form the head of a row; a full row adds the others. A row is kept as the driver
  returns it: a text column as a string, one of the seven \<open>JSONB\<close> columns as the
  value the driver has decoded from it (\<open>'j\<close> is \<open>json option\<close>, \<open>None\<close> for
  \<open>NULL\<close>); after the controllers have passed the seven columns through
  \<open>JSON.parse\<close>, \<open>'j\<close> is \<open>json\<close>. Timestamps are counted in ticks of the storage
  clock. The identifier is \<open>SERIAL\<close>: a 32-bit integer column fed by a sequence that
  only grows and ends at 2147483647.
\<close>

record resume_head =
  resume_id :: int
  file_name :: jsstring
  uploaded_at :: nat
  name :: "jsstring option"
  email :: "jsstring option"
  resume_rating :: "int option"

record 'j resume = resume_head +
  phone :: "jsstring option"
  linkedin_url :: "jsstring option"
  portfolio_url :: "jsstring option"
  summary :: "jsstring option"
  work_experience :: 'j
  education :: 'j
  technical_skills :: 'j
  soft_skills :: 'j
  projects :: 'j
  certifications :: 'j
  improvement_areas :: "jsstring option"
  upskill_suggestions :: 'j
  created_at :: nat
  updated_at :: nat

record resume_summary = resume_head +
  improvement_summary :: "jsstring option"

record database =
  resumes :: "json option resume list"
  next_id :: int

text \<open>\<open>x.then(f)\<close> for a step that may throw.\<close>

definition thenE :: "error + 'a \<Rightarrow> ('a \<Rightarrow> error + 'b) \<Rightarrow> error + 'b" where
  "thenE x f = (case x of Inl e \<Rightarrow> Inl e | Inr a \<Rightarrow> f a)"

subsection \<open>Text\<close>

text \<open>
  A string travels to the server in UTF-8: a surrogate pair is one character, a
  surrogate outside a pair is sent as U+FFFD. The server rejects text that holds
  U+0000 (SQLSTATE 22021) and counts the length of text in characters. A
  \<open>VARCHAR(n)\<close> column rejects text of more than \<open>n\<close> characters (SQLSTATE 22001)
  unless the characters beyond the first \<open>n\<close> are all spaces, which it drops.
\<close>

definition is_surrogate :: "jschar \<Rightarrow> bool" where
  "is_surrogate c \<longleftrightarrow> is_high_surrogate c \<or> is_low_surrogate c"

fun code_points :: "jsstring \<Rightarrow> int list" where
  "code_points [] = []"
| "code_points [c] = [if is_surrogate c then 0xFFFD else uint c]"
| "code_points (c # d # cs) =
     (if is_high_surrogate c \<and> is_low_surrogate d then
        (0x10000 + (uint c - 0xD800) * 0x400 + (uint d - 0xDC00)) # code_points cs
      else (if is_surrogate c then 0xFFFD else uint c) # code_points (d # cs))"

definition utf16 :: "int \<Rightarrow> jsstring" where
  "utf16 p =
     (if p < 0x10000 then [word_of_int p]
      else [word_of_int (0xD800 + (p - 0x10000) div 0x400),
            word_of_int (0xDC00 + (p - 0x10000) mod 0x400)])"

definition from_code_points :: "int list \<Rightarrow> jsstring" where
  "from_code_points ps = concat (map utf16 ps)"

definition text_value :: "jsstring \<Rightarrow> error + jsstring" where
  "text_value s =
     (if 0 \<in> set s then
        Inl (LibError (str ''invalid byte sequence for encoding \"UTF8\": 0x00'')
               (Some (str ''22021'')))
      else Inr (from_code_points (code_points s)))"

definition text_in :: "jsstring option \<Rightarrow> error + jsstring option" where
  "text_in p = (case p of None \<Rightarrow> Inr None | Some s \<Rightarrow> thenE (text_value s) (\<lambda>t. Inr (Some t)))"

definition varchar_value :: "nat \<Rightarrow> jsstring \<Rightarrow> error + jsstring" where
  "varchar_value n s =
     (let ps = code_points s in
      if length ps \<le> n then Inr s
      else if list_all (\<lambda>p. p = 0x20) (drop n ps) then Inr (from_code_points (take n ps))
      else Inl (LibError (str ''value too long for type character varying('' @ show_nat n
                            @ str '')'') (Some (str ''22001''))))"

definition varchar :: "nat \<Rightarrow> jsstring option \<Rightarrow> error + jsstring option" where
  "varchar n p =
     (case p of None \<Rightarrow> Inr None | Some s \<Rightarrow> thenE (varchar_value n s) (\<lambda>t. Inr (Some t)))"

subsection \<open>Integers\<close>

text \<open>
  Text given for an integer is read as the server reads an integer literal
  (PostgreSQL 16 and later): white space, an optional sign, then decimal digits or
  hexadecimal, octal or binary digits after \<open>0x\<close>, \<open>0o\<close> or \<open>0b\<close>, then white space.
  An underscore may stand before a digit, though not first in a decimal literal. Any
  other text makes the statement fail (SQLSTATE 22P02), and so does an integer outside
  the 32-bit range (SQLSTATE 22003).
\<close>

definition sql_space :: "jschar \<Rightarrow> bool" where
  "sql_space c \<longleftrightarrow> c = 0x20 \<or> c = 0x09 \<or> c = 0x0A \<or> c = 0x0B \<or> c = 0x0C \<or> c = 0x0D"

fun sql_digits :: "(jschar \<Rightarrow> nat option) \<Rightarrow> jsstring \<Rightarrow> (nat list \<times> jsstring) option" where
  "sql_digits dv [] = Some ([], [])"
| "sql_digits dv (c # cs) =
     (case dv c of
        Some d \<Rightarrow> cons_result d (sql_digits dv cs)
      | None \<Rightarrow>
          if c = 0x5F then
            (if cs \<noteq> [] \<and> dv (hd cs) \<noteq> None then sql_digits dv cs else None)
          else Some ([], c # cs))"

definition sql_integer :: "jsstring \<Rightarrow> int option" where
  "sql_integer s =
     (let t = dropWhile sql_space s;
          sign = (if t \<noteq> [] \<and> hd t = 0x2D then - 1 else 1);
          u = (if t \<noteq> [] \<and> (hd t = 0x2B \<or> hd t = 0x2D) then tl t else t);
          hex = (take 2 u = str ''0x'' \<or> take 2 u = str ''0X'');
          oct = (take 2 u = str ''0o'' \<or> take 2 u = str ''0O'');
          bin = (take 2 u = str ''0b'' \<or> take 2 u = str ''0B'');
          body = (if hex \<or> oct \<or> bin then drop 2 u else u);
          radix = (if hex then 16 else if oct then 8 else if bin then 2 else 10);
          dv = (if hex then hex_val else if oct then oct_val else if bin then bin_val
                else dec_val)
      in if radix = 10 \<and> body \<noteq> [] \<and> hd body = 0x5F then None
         else
           (case sql_digits dv body of
              None \<Rightarrow> None
            | Some (ds, r) \<Rightarrow>
                if ds = [] \<or> dropWhile sql_space r \<noteq> [] then None
                else Some (sign * radix_int radix ds)))"

definition sql_parameter :: "jsstring \<Rightarrow> error + int" where
  "sql_parameter s =
     (case sql_integer s of
        None \<Rightarrow>
          Inl (LibError (str ''invalid input syntax for type integer: \"'' @ s @ str ''\"'')
                 (Some (str ''22P02'')))
      | Some i \<Rightarrow>
          if i < - 2147483648 \<or> 2147483647 < i then
            Inl (LibError (str ''value \"'' @ s @ str ''\" is out of range for type integer'')
                   (Some (str ''22003'')))
          else Inr i)"

definition integer_in :: "jsstring option \<Rightarrow> error + int option" where
  "integer_in p =
     (case p of None \<Rightarrow> Inr None | Some s \<Rightarrow> thenE (sql_parameter s) (\<lambda>i. Inr (Some i)))"

subsection \<open>JSONB\<close>

text \<open>
  A \<open>JSONB\<close> column is given JSON text. The server rejects text that is not JSON
  (SQLSTATE 22P02), a string or member name with U+0000 (SQLSTATE 22P05) or with a
  surrogate outside a pair (SQLSTATE 22P02). It keeps the members of an object sorted,
  shorter names first and names of the same length byte by byte in UTF-8, which is the
  order of their code points. The driver decodes the column with \<open>JSON.parse\<close>, so a
  query returns the value: the members of each object in the order of the column,
  array indices first.
\<close>

fun strings_of :: "json \<Rightarrow> jsstring list"
  and strings_of_elements :: "json list \<Rightarrow> jsstring list"
  and strings_of_members :: "(jsstring \<times> json) list \<Rightarrow> jsstring list" where
  "strings_of JNull = []"
| "strings_of (JBool b) = []"
| "strings_of (JNum x) = []"
| "strings_of (JInf negative) = []"
| "strings_of (JStr s) = [s]"
| "strings_of (JArr xs) = strings_of_elements xs"
| "strings_of (JObj kv) = strings_of_members kv"
| "strings_of_elements [] = []"
| "strings_of_elements (x # xs) = strings_of x @ strings_of_elements xs"
| "strings_of_members [] = []"
| "strings_of_members (m # ms) = fst m # strings_of (snd m) @ strings_of_members ms"

fun well_formed :: "jsstring \<Rightarrow> bool" where
  "well_formed [] = True"
| "well_formed [c] = (\<not> is_surrogate c)"
| "well_formed (c # d # cs) =
     (if is_high_surrogate c \<and> is_low_surrogate d then well_formed cs
      else \<not> is_surrogate c \<and> well_formed (d # cs))"

definition utf8_length :: "int \<Rightarrow> nat" where
  "utf8_length p = (if p < 0x80 then 1 else if p < 0x800 then 2 else if p < 0x10000 then 3 else 4)"

fun lex_le :: "int list \<Rightarrow> int list \<Rightarrow> bool" where
  "lex_le [] ys = True"
| "lex_le (x # xs) [] = False"
| "lex_le (x # xs) (y # ys) = (x < y \<or> (x = y \<and> lex_le xs ys))"

definition jsonb_key_le :: "jsstring \<Rightarrow> jsstring \<Rightarrow> bool" where
  "jsonb_key_le a b =
     (let la = sum_list (map utf8_length (code_points a));
          lb = sum_list (map utf8_length (code_points b))
      in la < lb \<or> (la = lb \<and> lex_le (code_points a) (code_points b)))"

fun insert_member :: "jsstring \<times> json \<Rightarrow> (jsstring \<times> json) list \<Rightarrow> (jsstring \<times> json) list" where
  "insert_member m [] = [m]"
| "insert_member m (n # ns) =
     (if jsonb_key_le (fst m) (fst n) then m # n # ns else n # insert_member m ns)"

fun jsonb_value :: "json \<Rightarrow> json"
  and jsonb_elements :: "json list \<Rightarrow> json list"
  and jsonb_members :: "(jsstring \<times> json) list \<Rightarrow> (jsstring \<times> json) list" where
  "jsonb_value JNull = JNull"
| "jsonb_value (JBool b) = JBool b"
| "jsonb_value (JNum x) = JNum x"
| "jsonb_value (JInf negative) = JInf negative"
| "jsonb_value (JStr s) = JStr s"
| "jsonb_value (JArr xs) = JArr (jsonb_elements xs)"
| "jsonb_value (JObj kv) = JObj (property_order (jsonb_members kv))"
| "jsonb_elements [] = []"
| "jsonb_elements (x # xs) = jsonb_value x # jsonb_elements xs"
| "jsonb_members [] = []"
| "jsonb_members (m # ms) = insert_member (fst m, jsonb_value (snd m)) (jsonb_members ms)"

definition jsonb_in :: "jsstring option \<Rightarrow> error + json option" where
  "jsonb_in p =
     (case p of
        None \<Rightarrow> Inr None
      | Some text \<Rightarrow>
          (case JSON_parse text of
             Inl e \<Rightarrow>
               Inl (LibError (str ''invalid input syntax for type json'') (Some (str ''22P02'')))
           | Inr v \<Rightarrow>
               if \<not> list_all (\<lambda>s. 0 \<notin> set s) (strings_of v) then
                 Inl (LibError (str ''unsupported Unicode escape sequence'') (Some (str ''22P05'')))
               else if \<not> list_all well_formed (strings_of v) then
                 Inl (LibError (str ''invalid input syntax for type json'') (Some (str ''22P02'')))
               else Inr (Some (jsonb_value v))))"

subsection \<open>The statements\<close>

text \<open>
  What the driver sends for a parameter: \<open>null\<close> and \<open>undefined\<close> are \<open>NULL\<close>, a
  string is its text, a number or boolean its string form; how it prints an array or
  an object is the driver's affair and a parameter of the model (\<open>prepareValue\<close>).
\<close>

definition bind_text :: "(json \<Rightarrow> jsstring option) \<Rightarrow> json option \<Rightarrow> jsstring option" where
  "bind_text prepareValue v =
     (case v of
        None \<Rightarrow> None
      | Some JNull \<Rightarrow> None
      | Some (JStr s) \<Rightarrow> Some s
      | Some (JNum x) \<Rightarrow> Some (Number_toString x)
      | Some (JInf negative) \<Rightarrow> Some (if negative then str ''-Infinity'' else str ''Infinity'')
      | Some (JBool b) \<Rightarrow> Some (if b then str ''true'' else str ''false'')
      | Some j \<Rightarrow> prepareValue j)"

text \<open>
  The parameters of the \<open>INSERT\<close> of \<open>uploadResume\<close>, in their order; the server reads
  each one as its column's type, and the first that it rejects ends the statement.
\<close>

definition bind_parameters ::
  "(json \<Rightarrow> jsstring option) \<Rightarrow> jsstring \<Rightarrow> json \<Rightarrow> error + json option resume" where
  "bind_parameters prepareValue fileName analysisResult =
     thenE (text_value fileName) (\<lambda>p1.
     thenE (text_in (bind_text prepareValue (member analysisResult (str ''name'')))) (\<lambda>p2.
     thenE (text_in (bind_text prepareValue (member analysisResult (str ''email'')))) (\<lambda>p3.
     thenE (text_in (bind_text prepareValue (member analysisResult (str ''phone'')))) (\<lambda>p4.
     thenE (text_in (bind_text prepareValue (member analysisResult (str ''linkedin_url'')))) (\<lambda>p5.
     thenE (text_in (bind_text prepareValue (member analysisResult (str ''portfolio_url'')))) (\<lambda>p6.
     thenE (text_in (bind_text prepareValue (member analysisResult (str ''summary'')))) (\<lambda>p7.
     thenE (jsonb_in (map_option JSON_stringify (member analysisResult (str ''work_experience'')))) (\<lambda>p8.
     thenE (jsonb_in (map_option JSON_stringify (member analysisResult (str ''education'')))) (\<lambda>p9.
     thenE (jsonb_in (map_option JSON_stringify (member analysisResult (str ''technical_skills'')))) (\<lambda>p10.
     thenE (jsonb_in (map_option JSON_stringify (member analysisResult (str ''soft_skills'')))) (\<lambda>p11.
     thenE (jsonb_in (Some (JSON_stringify (js_or (member analysisResult (str ''projects'')) (JArr []))))) (\<lambda>p12.
     thenE (jsonb_in (Some (JSON_stringify (js_or (member analysisResult (str ''certifications'')) (JArr []))))) (\<lambda>p13.
     thenE (integer_in (bind_text prepareValue (member analysisResult (str ''resume_rating'')))) (\<lambda>p14.
     thenE (text_in (bind_text prepareValue (member analysisResult (str ''improvement_areas'')))) (\<lambda>p15.
     thenE (jsonb_in (map_option JSON_stringify (member analysisResult (str ''upskill_suggestions'')))) (\<lambda>p16.
       Inr \<lparr>resume_id = 0, file_name = p1, uploaded_at = 0, name = p2, email = p3,
            resume_rating = p14, phone = p4, linkedin_url = p5, portfolio_url = p6,
            summary = p7, work_experience = p8, education = p9, technical_skills = p10,
            soft_skills = p11, projects = p12, certifications = p13,
            improvement_areas = p15, upskill_suggestions = p16,
            created_at = 0, updated_at = 0\<rparr>))))))))))))))))"

text \<open>
  The columns of the new row, in the order of the table: the lengths of the
  \<open>VARCHAR\<close> columns, then the check constraint on the rating (SQLSTATE 23514).
\<close>

definition column_constraints :: "json option resume \<Rightarrow> error + json option resume" where
  "column_constraints r =
     thenE (varchar_value 255 (file_name r)) (\<lambda>c1.
     thenE (varchar 255 (name r)) (\<lambda>c2.
     thenE (varchar 255 (email r)) (\<lambda>c3.
     thenE (varchar 50 (phone r)) (\<lambda>c4.
     thenE (varchar 255 (linkedin_url r)) (\<lambda>c5.
     thenE (varchar 255 (portfolio_url r)) (\<lambda>c6.
       (case resume_rating r of
          None \<Rightarrow> Inr (r\<lparr>file_name := c1, name := c2, email := c3, phone := c4,
                          linkedin_url := c5, portfolio_url := c6\<rparr>)
        | Some i \<Rightarrow>
            if 1 \<le> i \<and> i \<le> 10 then
              Inr (r\<lparr>file_name := c1, name := c2, email := c3, phone := c4,
                     linkedin_url := c5, portfolio_url := c6\<rparr>)
            else
              Inl (LibError (str ''new row for relation \"resumes\" violates check constraint \"resumes_resume_rating_check\"'')
                     (Some (str ''23514''))))))))))"

text \<open>
  Every statement may fail for a reason of its environment (connection, capacity): the
  failure, if any, is part of the request, and the statement then throws it and leaves
  the table as it was. \<open>INSERT ... RETURNING *\<close> reads its parameters, takes the next
  identifier from the sequence (it fails once the sequence is exhausted, SQLSTATE
  2200H), checks the columns, appends the row with the current time and returns it. A
  row that fails a check has used its identifier.
\<close>

definition insert_resume ::
  "error option \<Rightarrow> nat \<Rightarrow> (json \<Rightarrow> jsstring option) \<Rightarrow> jsstring \<Rightarrow> json \<Rightarrow> database
   \<Rightarrow> (error + json option resume) \<times> database" where
  "insert_resume fault now prepareValue fileName analysisResult db =
     (case fault of
        Some e \<Rightarrow> (Inl e, db)
      | None \<Rightarrow>
          (case bind_parameters prepareValue fileName analysisResult of
             Inl e \<Rightarrow> (Inl e, db)
           | Inr values \<Rightarrow>
               if 2147483647 < next_id db then
                 (Inl (LibError (str ''nextval: reached maximum value of sequence \"resumes_id_seq\" (2147483647)'')
                         (Some (str ''2200H''))), db)
               else
                 (case column_constraints values of
                    Inl e \<Rightarrow> (Inl e, db\<lparr>next_id := next_id db + 1\<rparr>)
                  | Inr checked \<Rightarrow>
                      (let row = checked\<lparr>resume_id := next_id db, uploaded_at := now,
                                          created_at := now, updated_at := now\<rparr>
                       in (Inr row,
                           db\<lparr>resumes := resumes db @ [row], next_id := next_id db + 1\<rparr>)))))"

definition select_by_id ::
  "error option \<Rightarrow> jsstring \<Rightarrow> database \<Rightarrow> error + json option resume list" where
  "select_by_id fault id_param db =
     (case fault of
        Some e \<Rightarrow> Inl e
      | None \<Rightarrow>
          (case sql_parameter id_param of
             Inl e \<Rightarrow> Inl e
           | Inr i \<Rightarrow> Inr (filter (\<lambda>r. resume_id r = i) (resumes db))))"

definition delete_by_id ::
  "error option \<Rightarrow> jsstring \<Rightarrow> database
   \<Rightarrow> error + (json option resume list \<times> database)" where
  "delete_by_id fault id_param db =
     (case fault of
        Some e \<Rightarrow> Inl e
      | None \<Rightarrow>
          (case sql_parameter id_param of
             Inl e \<Rightarrow> Inl e
           | Inr i \<Rightarrow>
               Inr (filter (\<lambda>r. resume_id r = i) (resumes db),
                    db\<lparr>resumes := filter (\<lambda>r. resume_id r \<noteq> i) (resumes db)\<rparr>)))"

text \<open>
  The list query:
  \<^verbatim>\<open>SELECT id, file_name, uploaded_at, name, email, resume_rating,
    CASE WHEN LENGTH(improvement_areas) > 100
         THEN SUBSTRING(improvement_areas FROM 1 FOR 100) || '...'
         ELSE improvement_areas END as improvement_summary
  FROM resumes ORDER BY uploaded_at DESC\<close>
  \<open>LENGTH\<close> and \<open>SUBSTRING\<close> count characters. Rows with equal \<open>uploaded_at\<close> come
  in some order; the model fixes one.
\<close>

definition improvement_preview :: "jsstring option \<Rightarrow> jsstring option" where
  "improvement_preview areas =
     (case areas of
        None \<Rightarrow> None
      | Some s \<Rightarrow>
          if length (code_points s) > 100
          then Some (from_code_points (take 100 (code_points s)) @ str ''...'')
          else Some s)"

definition summary_of :: "json option resume \<Rightarrow> resume_summary" where
  "summary_of r =
     \<lparr>resume_id = resume_id r, file_name = file_name r, uploaded_at = uploaded_at r,
      name = name r, email = email r, resume_rating = resume_rating r,
      improvement_summary = improvement_preview (improvement_areas r)\<rparr>"

definition select_summaries :: "error option \<Rightarrow> database \<Rightarrow> error + resume_summary list" where
  "select_summaries fault db =
     (case fault of
        Some e \<Rightarrow> Inl e
      | None \<Rightarrow> Inr (map summary_of (rev (sort_key uploaded_at (resumes db)))))"

text \<open>
  The statistics query. The driver returns a count as decimal text, \<open>AVG\<close> as the
  text of a numeric or \<open>NULL\<close> over no rows, \<open>MAX\<close> and \<open>MIN\<close> as numbers or
  \<open>NULL\<close>. The average is kept as the sum and the number of the ratings.
\<close>

record stats_row =
  count_all :: jsstring
  avg_of :: "(int \<times> nat) option"
  max_of :: "int option"
  min_of :: "int option"
  count_high :: jsstring
  count_medium :: jsstring
  count_low :: jsstring

definition ratings :: "database \<Rightarrow> int list" where
  "ratings db = List.map_filter resume_rating (resumes db)"

definition select_stats :: "error option \<Rightarrow> database \<Rightarrow> error + stats_row" where
  "select_stats fault db =
     (case fault of
        Some e \<Rightarrow> Inl e
      | None \<Rightarrow>
          (let rs = ratings db in
           Inr \<lparr>count_all = show_nat (length (resumes db)),
                avg_of = (if rs = [] then None else Some (sum_list rs, length rs)),
                max_of = (if rs = [] then None else Some (fold max (tl rs) (hd rs))),
                min_of = (if rs = [] then None else Some (fold min (tl rs) (hd rs))),
                count_high = show_nat (length (filter (\<lambda>r. r \<ge> 8) rs)),
                count_medium = show_nat (length (filter (\<lambda>r. 5 \<le> r \<and> r \<le> 7) rs)),
                count_low = show_nat (length (filter (\<lambda>r. r < 5) rs))\<rparr>))"

section \<open>The controllers\<close>

text \<open>A response: the status and the JSON envelope \<open>{ success, message, data }\<close>.\<close>

record 'd response =
  status :: nat
  success :: bool
  message :: jsstring
  data :: "'d option"

definition failure :: "nat \<Rightarrow> jsstring \<Rightarrow> 'd response" where
  "failure code msg = \<lparr>status = code, success = False, message = msg, data = None\<rparr>"

text \<open>
  The message and the code of a caught error. The engine's messages for a
  \<open>TypeError\<close> contain none of the phrases the handlers look for. Its message for
  the \<open>SyntaxError\<close> of \<open>JSON.parse\<close> may quote the start of the text; the handler
  of \<open>uploadResume\<close> sees only the one for the work experience column, which is
  parsed first and whose string form is empty or starts with \<open>[object Object]\<close>.
\<close>

definition error_message :: "error \<Rightarrow> jsstring" where
  "error_message e =
     (case e of
        TypeError \<Rightarrow> str ''TypeError''
      | SyntaxError \<Rightarrow> str ''SyntaxError''
      | AppError m s \<Rightarrow> m
      | LibError m c \<Rightarrow> m)"

definition error_code :: "error \<Rightarrow> jsstring option" where
  "error_code e = (case e of LibError m c \<Rightarrow> c | _ \<Rightarrow> None)"

text \<open>
  \<open>JSON.parse(column || '[]')\<close> for the seven JSON columns, in the order of the
  source. The column is the value the driver decoded, and \<open>JSON.parse\<close> converts its
  argument to a string first.
\<close>

definition parse_column :: "json option \<Rightarrow> error + json" where
  "parse_column c =
     (case c of
        None \<Rightarrow> JSON_parse (str ''[]'')
      | Some v \<Rightarrow>
          if truthy v then (case ToString v of Inl e \<Rightarrow> Inl e | Inr t \<Rightarrow> JSON_parse t)
          else JSON_parse (str ''[]''))"

definition parse_columns :: "json option resume \<Rightarrow> error + json resume" where
  "parse_columns r =
     (case parse_column (work_experience r) of Inl e \<Rightarrow> Inl e | Inr we \<Rightarrow>
     (case parse_column (education r) of Inl e \<Rightarrow> Inl e | Inr ed \<Rightarrow>
     (case parse_column (technical_skills r) of Inl e \<Rightarrow> Inl e | Inr ts \<Rightarrow>
     (case parse_column (soft_skills r) of Inl e \<Rightarrow> Inl e | Inr ss \<Rightarrow>
     (case parse_column (projects r) of Inl e \<Rightarrow> Inl e | Inr pr \<Rightarrow>
     (case parse_column (certifications r) of Inl e \<Rightarrow> Inl e | Inr ce \<Rightarrow>
     (case parse_column (upskill_suggestions r) of Inl e \<Rightarrow> Inl e | Inr us \<Rightarrow>
        Inr \<lparr>resume_id = resume_id r, file_name = file_name r, uploaded_at = uploaded_at r,
             name = name r, email = email r, resume_rating = resume_rating r,
             phone = phone r, linkedin_url = linkedin_url r, portfolio_url = portfolio_url r,
             summary = summary r, work_experience = we, education = ed,
             technical_skills = ts, soft_skills = ss, projects = pr, certifications = ce,
             improvement_areas = improvement_areas r, upskill_suggestions = us,
             created_at = created_at r, updated_at = updated_at r\<rparr>)))))))"

text \<open>The uploaded file as the upload middleware presents it, and the request.\<close>

record upload_file =
  mimetype :: jsstring
  filesize :: nat
  originalname :: jsstring

record upload_request =
  req_file :: "upload_file option"
  pdf :: pdf_outcome
  api_key :: bool
  ai :: ai_outcome
  processed_at :: jsstring
  storage :: "error option"
  timestamp :: nat

text \<open>
  The \<open>catch\<close> of \<open>uploadResume\<close>: it looks at the message and the code of the
  error, never at the status an \<open>AppError\<close> carries.
\<close>

definition upload_failure :: "error \<Rightarrow> 'd response" where
  "upload_failure error =
     (if string_includes (error_message error) (str ''PDF parsing failed'') then
        failure 400 (str ''Unable to process PDF file. Please ensure it's a valid, non-encrypted PDF.'')
      else if string_includes (error_message error) (str ''AI analysis failed'') then
        failure 500 (str ''AI analysis service is temporarily unavailable. Please try again later.'')
      else if error_code error = Some (str ''23505'') then
        failure 400 (str ''A resume with this name already exists.'')
      else
        failure 500 (str ''An error occurred while processing your resume. Please try again.''))"

definition uploadResume ::
  "(json \<Rightarrow> jsstring option) \<Rightarrow> upload_request \<Rightarrow> database
   \<Rightarrow> json resume response \<times> database" where
  "uploadResume prepareValue req db =
     (case req_file req of
        None \<Rightarrow> (failure 400 (str ''No file uploaded. Please select a PDF file.''), db)
      | Some f \<Rightarrow>
          if mimetype f \<noteq> str ''application/pdf'' then
            (failure 400 (str ''Only PDF files are allowed.''), db)
          else if filesize f > 5 * 1024 * 1024 then
            (failure 400 (str ''File size too large. Maximum size allowed is 5MB.''), db)
          else
            (case analyzeResume (pdf req) (api_key req) (ai req) (processed_at req)
                    (originalname f) of
               Inl error \<Rightarrow> (upload_failure error, db)
             | Inr analysisResult \<Rightarrow>
                 (case insert_resume (storage req) (timestamp req) prepareValue
                         (originalname f) analysisResult db of
                    (Inl error, db') \<Rightarrow> (upload_failure error, db')
                  | (Inr savedResume, db') \<Rightarrow>
                      (case parse_columns savedResume of
                         Inl error \<Rightarrow> (upload_failure error, db')
                       | Inr parsed \<Rightarrow>
                           (\<lparr>status = 201, success = True,
                             message = str ''Resume uploaded and analyzed successfully!'',
                             data = Some parsed\<rparr>, db')))))"

definition getAllResumes :: "error option \<Rightarrow> database \<Rightarrow> (resume_summary list \<times> nat) response" where
  "getAllResumes fault db =
     (case select_summaries fault db of
        Inl error \<Rightarrow> failure 500 (str ''An error occurred while fetching resumes.'')
      | Inr rows \<Rightarrow>
          \<lparr>status = 200, success = True, message = str ''Resumes retrieved successfully'',
           data = Some (rows, length rows)\<rparr>)"

definition getResumeById :: "error option \<Rightarrow> jsstring \<Rightarrow> database \<Rightarrow> json resume response" where
  "getResumeById fault id_param db =
     (if id_param = [] \<or> parseInt_string id_param = None then
        failure 400 (str ''Invalid resume ID provided.'')
      else
        (case select_by_id fault id_param db of
           Inl error \<Rightarrow> failure 500 (str ''An error occurred while fetching the resume.'')
         | Inr rows \<Rightarrow>
             (case rows of
                [] \<Rightarrow> failure 404 (str ''Resume not found.'')
              | resume # others \<Rightarrow>
                  (case parse_columns resume of
                     Inl error \<Rightarrow> failure 500 (str ''An error occurred while fetching the resume.'')
                   | Inr parsed \<Rightarrow>
                       \<lparr>status = 200, success = True,
                        message = str ''Resume retrieved successfully'',
                        data = Some parsed\<rparr>))))"

definition deleteResume ::
  "error option \<Rightarrow> jsstring \<Rightarrow> database \<Rightarrow> (int \<times> jsstring) response \<times> database" where
  "deleteResume fault id_param db =
     (if id_param = [] \<or> parseInt_string id_param = None then
        (failure 400 (str ''Invalid resume ID provided.''), db)
      else
        (case delete_by_id fault id_param db of
           Inl error \<Rightarrow> (failure 500 (str ''An error occurred while deleting the resume.''), db)
         | Inr (rows, db') \<Rightarrow>
             (case rows of
                [] \<Rightarrow> (failure 404 (str ''Resume not found.''), db')
              | deletedResume # others \<Rightarrow>
                  (\<lparr>status = 200, success = True,
                    message = str ''Resume \"'' @ file_name deletedResume
                                @ str ''\" deleted successfully'',
                    data = Some (resume_id deletedResume, file_name deletedResume)\<rparr>, db'))))"

text \<open>
  \<open>getResumeStats\<close> converts the row: \<open>parseInt\<close> of a count, of \<open>MAX\<close> and of
  \<open>MIN\<close>, and \<open>parseFloat(parseFloat(avg).toFixed(2))\<close>. \<open>NULL\<close> prints as \<open>null\<close>,
  which neither parser reads: the result is \<open>NaN\<close>, and \<open>NaN.toFixed(2)\<close> is the
  text \<open>NaN\<close>. What the two conversions make of the average of some ratings, given
  as their sum and their number, is a matter of binary64 arithmetic and a parameter of
  the model (\<open>toFixed2\<close>).
\<close>

record statistics =
  total_resumes :: numval
  avg_rating :: numval
  max_rating :: numval
  min_rating :: numval
  high_rated_count :: numval
  medium_rated_count :: numval
  low_rated_count :: numval

definition number_of :: "int option \<Rightarrow> numval" where
  "number_of v = (case v of None \<Rightarrow> NaN | Some i \<Rightarrow> Finite i 0)"

definition rounded_average :: "(int \<Rightarrow> nat \<Rightarrow> numval) \<Rightarrow> (int \<times> nat) option \<Rightarrow> numval" where
  "rounded_average toFixed2 a = (case a of None \<Rightarrow> NaN | Some (s, n) \<Rightarrow> toFixed2 s n)"

definition getResumeStats ::
  "(int \<Rightarrow> nat \<Rightarrow> numval) \<Rightarrow> error option \<Rightarrow> database \<Rightarrow> statistics response" where
  "getResumeStats toFixed2 fault db =
     (case select_stats fault db of
        Inl error \<Rightarrow> failure 500 (str ''An error occurred while fetching resume statistics.'')
      | Inr stats \<Rightarrow>
          \<lparr>status = 200, success = True,
           message = str ''Resume statistics retrieved successfully'',
           data = Some
             \<lparr>total_resumes = number_of (parseInt_string (count_all stats)),
              avg_rating = rounded_average toFixed2 (avg_of stats),
              max_rating = number_of (max_of stats),
              min_rating = number_of (min_of stats),
              high_rated_count = number_of (parseInt_string (count_high stats)),
              medium_rated_count = number_of (parseInt_string (count_medium stats)),
              low_rated_count = number_of (parseInt_string (count_low stats))\<rparr>\<rparr>)"

section \<open>The routes\<close>

text \<open>
  The routes run \<open>validateResumeId\<close> before the controllers of \<open>GET /:id\<close> and
  \<open>DELETE /:id\<close>; its \<open>AppError\<close> goes to the global error handler. For an
  \<open>AppError\<close> (no \<open>code\<close>, the name \<open>Error\<close>) the handler looks at the message:
  one that mentions PDF is replaced by \<open>handlePDFError\<close>, one that mentions the AI
  service by \<open>handleAIServiceError\<close> of the error so far; the answer carries the
  status and the message of the result, in development as in production. An error
  that is not an \<open>AppError\<close> gets, in production, status 500 and a fixed message.
\<close>

definition handlePDFError :: "jsstring \<Rightarrow> error" where
  "handlePDFError msg =
     (if string_includes msg (str ''PDF parsing failed'')
         \<or> string_includes msg (str ''Invalid PDF'') then
        AppError (str ''Unable to process PDF file. Please ensure it's a valid, non-encrypted PDF.'') 400
      else if string_includes msg (str ''password'') then
        AppError (str ''PDF is password protected. Please upload an unprotected PDF.'') 400
      else AppError (str ''PDF processing failed. Please try with a different file.'') 400)"

definition handleAIServiceError :: "jsstring \<Rightarrow> error" where
  "handleAIServiceError msg =
     (if string_includes msg (str ''API key'') then
        AppError (str ''AI service configuration error. Please contact support.'') 500
      else if string_includes msg (str ''quota'') \<or> string_includes msg (str ''limit'') then
        AppError (str ''AI service temporarily unavailable due to usage limits. Please try again later.'') 503
      else if string_includes msg (str ''timeout'') then
        AppError (str ''AI analysis is taking longer than expected. Please try again.'') 408
      else
        AppError (str ''AI analysis service is temporarily unavailable. Please try again later.'') 503)"

definition globalErrorHandler :: "jsstring \<Rightarrow> nat \<Rightarrow> 'd response" where
  "globalErrorHandler msg statusCode =
     (let err = AppError msg (if statusCode = 0 then 500 else statusCode);
          e1 = (if string_includes msg (str ''PDF'') \<or> string_includes msg (str ''pdf'')
                then handlePDFError (error_message err) else err);
          e2 = (if string_includes msg (str ''AI analysis'')
                   \<or> string_includes msg (str ''Gemini'')
                   \<or> string_includes msg (str ''API key'')
                then handleAIServiceError (error_message e1) else e1)
      in case e2 of
           AppError m s \<Rightarrow> failure s m
         | other \<Rightarrow> failure 500 (str ''Something went wrong! Please try again later.''))"

text \<open>
  \<open>POST /upload\<close> runs \<open>validateFileUpload\<close> on the file the upload middleware
  accepted, then the controller.
\<close>

definition validateFileUpload :: "upload_file option \<Rightarrow> error option" where
  "validateFileUpload file =
     (case file of
        None \<Rightarrow> Some (AppError (str ''No file uploaded. Please select a PDF file.'') 400)
      | Some f \<Rightarrow>
          if mimetype f \<noteq> str ''application/pdf'' then
            Some (AppError (str ''Invalid file type. Only PDF files are allowed.'') 400)
          else if filesize f > 5 * 1024 * 1024 then
            Some (AppError (str ''File too large. Maximum size is 5MB.'') 400)
          else if filesize f = 0 then
            Some (AppError (str ''Empty file uploaded. Please select a valid PDF file.'') 400)
          else None)"

definition validateResumeId :: "jsstring \<Rightarrow> error option" where
  "validateResumeId id_param =
     (if id_param = [] then Some (AppError (str ''Resume ID is required.'') 400)
      else
        (case parseInt_string id_param of
           None \<Rightarrow> Some (AppError (str ''Invalid resume ID. ID must be a positive number.'') 400)
         | Some n \<Rightarrow>
             if n \<le> 0 then Some (AppError (str ''Invalid resume ID. ID must be a positive number.'') 400)
             else None))"

definition error_response :: "error \<Rightarrow> 'd response" where
  "error_response error =
     (case error of
        AppError m s \<Rightarrow> globalErrorHandler m s
      | _ \<Rightarrow> failure 500 (str ''Something went wrong! Please try again later.''))"

definition upload_resume ::
  "(json \<Rightarrow> jsstring option) \<Rightarrow> upload_request \<Rightarrow> database
   \<Rightarrow> json resume response \<times> database" where
  "upload_resume prepareValue req db =
     (case validateFileUpload (req_file req) of
        Some error \<Rightarrow> (error_response error, db)
      | None \<Rightarrow> uploadResume prepareValue req db)"

definition get_resume :: "error option \<Rightarrow> jsstring \<Rightarrow> database \<Rightarrow> json resume response" where
  "get_resume fault id_param db =
     (case validateResumeId id_param of
        Some error \<Rightarrow> error_response error
      | None \<Rightarrow> getResumeById fault id_param db)"

definition delete_resume ::
  "error option \<Rightarrow> jsstring \<Rightarrow> database \<Rightarrow> (int \<times> jsstring) response \<times> database" where
  "delete_resume fault id_param db =
     (case validateResumeId id_param of
        Some error \<Rightarrow> (error_response error, db)
      | None \<Rightarrow> deleteResume fault id_param db)"

section \<open>Reference notions used in the statements\<close>

text \<open>
  The integer part of a number (its decimal value truncated towards zero) and the
  clamp of an integer to the rating range.
\<close>

definition clamp_rating :: "int \<Rightarrow> int" where
  "clamp_rating t = (if t < 1 then 1 else if 10 < t then 10 else t)"

definition integer_part :: "jsnum \<Rightarrow> int" where
  "integer_part x =
     (let m = int (radix_value 10 (digits x)); k = int (length (digits x)); n = point x
      in (if neg x then - 1 else 1) *
         (if k \<le> n then m * 10 ^ nat (n - k) else m div 10 ^ nat (k - n)))"

text \<open>Deleting the same identifier again and again, the storage answering each time.\<close>

fun delete_repeatedly ::
  "nat \<Rightarrow> jsstring \<Rightarrow> database \<Rightarrow> (int \<times> jsstring) response list \<times> database" where
  "delete_repeatedly 0 id_param db = ([], db)"
| "delete_repeatedly (Suc k) id_param db =
     (case delete_resume None id_param db of
        (r, db') \<Rightarrow> (case delete_repeatedly k id_param db' of (rs, db'') \<Rightarrow> (r # rs, db'')))"

text \<open>A sequence of uploads, each one on the table the one before left.\<close>

fun uploads ::
  "(json \<Rightarrow> jsstring option) \<Rightarrow> upload_request list \<Rightarrow> database
   \<Rightarrow> json resume response list \<times> database" where
  "uploads prepareValue [] db = ([], db)"
| "uploads prepareValue (req # reqs) db =
     (case upload_resume prepareValue req db of
        (r, db') \<Rightarrow> (case uploads prepareValue reqs db' of (rs, db'') \<Rightarrow> (r # rs, db'')))"

section \<open>Reference notions: the Analysis schema\<close>

text \<open>
  The Analysis schema of the specification: the fifteen fields, every list-typed field
  an array, and the rating an integer from 1 to 10.
\<close>

definition analysis_fields :: "jsstring list" where
  "analysis_fields = map str
     [''name'', ''email'', ''phone'', ''linkedin_url'', ''portfolio_url'', ''summary'',
      ''work_experience'', ''education'', ''technical_skills'', ''soft_skills'', ''projects'',
      ''certifications'', ''resume_rating'', ''improvement_areas'', ''upskill_suggestions'']"

definition list_fields :: "jsstring list" where
  "list_fields = map str
     [''work_experience'', ''education'', ''technical_skills'', ''soft_skills'', ''projects'',
      ''certifications'', ''upskill_suggestions'']"

definition is_array :: "json option \<Rightarrow> bool" where
  "is_array v = (case v of Some (JArr xs) \<Rightarrow> True | _ \<Rightarrow> False)"

definition is_rating :: "json option \<Rightarrow> bool" where
  "is_rating v = (case v of Some (JNum x) \<Rightarrow> x \<in> set (map jsnum_of_int [1..10]) | _ \<Rightarrow> False)"

definition satisfies_schema :: "json \<Rightarrow> bool" where
  "satisfies_schema out =
     (case out of
        JObj kv \<Rightarrow>
          map fst kv = analysis_fields \<and>
          list_all (\<lambda>k. is_array (map_of kv k)) list_fields \<and>
          is_rating (map_of kv (str ''resume_rating''))
      | _ \<Rightarrow> False)"

text \<open>
  The result of the sanitizer for an object that has only a summary: every other
  field takes its default.
\<close>

definition default_analysis :: "json \<Rightarrow> json" where
  "default_analysis s = JObj
     [(str ''name'', JNull),
      (str ''email'', JNull),
      (str ''phone'', JNull),
      (str ''linkedin_url'', JNull),
      (str ''portfolio_url'', JNull),
      (str ''summary'', s),
      (str ''work_experience'', JArr []),
      (str ''education'', JArr []),
      (str ''technical_skills'', JArr []),
      (str ''soft_skills'', JArr []),
      (str ''projects'', JArr []),
      (str ''certifications'', JArr []),
      (str ''resume_rating'', JNum (Num False [1] 1)),
      (str ''improvement_areas'', JStr (str ''No specific improvement areas identified.'')),
      (str ''upskill_suggestions'', JArr [])]"

text \<open>
  The cap of the specification on a field: a text longer than the limit is replaced by
  its first \<open>keep\<close> characters followed by \<open>...\<close>; anything else is unchanged. The
  fields whose items the sanitizer rebuilds.
\<close>

definition is_text :: "json \<Rightarrow> bool" where
  "is_text v = (case v of JStr s \<Rightarrow> True | _ \<Rightarrow> False)"

definition capped :: "nat \<Rightarrow> nat \<Rightarrow> json \<Rightarrow> json" where
  "capped limit keep v =
     (case v of
        JStr s \<Rightarrow> JStr (if limit < length s then take keep s @ str ''...'' else s)
      | other \<Rightarrow> other)"

definition item_fields :: "jsstring list" where
  "item_fields = map str [''work_experience'', ''education'', ''projects'', ''certifications'']"

section \<open>Scenarios\<close>

text \<open>
  An analysis with a summary of 1001 characters, improvement areas of 2001, a rating
  of 11 and a work experience that has only a role, and what the sanitizer makes of it.
\<close>

definition raw_analysis :: json where
  "raw_analysis = JObj
     [(str ''summary'', JStr (replicate 1001 0x61)),
      (str ''work_experience'', JArr [JObj [(str ''role'', JStr (str ''Engineer''))]]),
      (str ''resume_rating'', JNum (Num False [1, 1] 2)),
      (str ''improvement_areas'', JStr (replicate 2001 0x62))]"

definition clean_analysis :: json where
  "clean_analysis = JObj
     [(str ''name'', JNull),
      (str ''email'', JNull),
      (str ''phone'', JNull),
      (str ''linkedin_url'', JNull),
      (str ''portfolio_url'', JNull),
      (str ''summary'', JStr (replicate 997 0x61 @ str ''...'')),
      (str ''work_experience'',
         JArr [JObj [(str ''role'', JStr (str ''Engineer'')),
                     (str ''company'', JStr (str ''Not specified'')),
                     (str ''duration'', JStr (str ''Not specified'')),
                     (str ''description'', JArr [JStr (str ''No description provided'')])]]),
      (str ''education'', JArr []),
      (str ''technical_skills'', JArr []),
      (str ''soft_skills'', JArr []),
      (str ''projects'', JArr []),
      (str ''certifications'', JArr []),
      (str ''resume_rating'', JNum (Num False [1] 2)),
      (str ''improvement_areas'', JStr (replicate 1997 0x62 @ str ''...'')),
      (str ''upskill_suggestions'', JArr [])]"

text \<open>
  Requests of the scenarios: a PDF file of one kilobyte; an upload whose text is long
  enough and whose AI call fails with a timeout; an upload whose text has ten
  characters.
\<close>

definition pdf_file :: upload_file where
  "pdf_file = \<lparr>mimetype = str ''application/pdf'', filesize = 1024, originalname = str ''cv.pdf''\<rparr>"

definition timeout_request :: upload_request where
  "timeout_request =
     \<lparr>req_file = Some pdf_file, pdf = PdfData (Some (replicate 60 0x61)), api_key = True,
      ai = AiError (str ''Request timeout'') None,
      processed_at = str ''2024-01-01T00:00:00.000Z'', storage = None, timestamp = 0\<rparr>"

definition short_text_request :: upload_request where
  "short_text_request =
     \<lparr>req_file = Some pdf_file, pdf = PdfData (Some (str ''Hello Bob!'')), api_key = True,
      ai = AiText (str ''{}''),
      processed_at = str ''2024-01-01T00:00:00.000Z'', storage = None, timestamp = 0\<rparr>"

text \<open>
  An upload whose analysis succeeds, at a given time of the storage clock: the AI
  answers with a rating and two skills. The empty table.
\<close>

definition analysis_request :: "nat \<Rightarrow> upload_request" where
  "analysis_request t =
     \<lparr>req_file = Some pdf_file, pdf = PdfData (Some (replicate 60 0x61)), api_key = True,
      ai = AiText (str ''{\"resume_rating\": 7, \"technical_skills\": [\"SQL\", \"Go\"]}''),
      processed_at = str ''2024-01-01T00:00:00.000Z'', storage = None, timestamp = t\<rparr>"

definition empty_table :: database where
  "empty_table = \<lparr>resumes = [], next_id = 1\<rparr>"

text \<open>
  The table after the upload of the scenario at time 1 on the empty table, and the
  summary of the row that the upload at time \<open>i\<close> stores as the \<open>i\<close>-th row.
\<close>

definition stored_table :: database where
  "stored_table =
     \<lparr>resumes =
        [\<lparr>resume_id = 1, file_name = str ''cv.pdf'', uploaded_at = 1, name = None,
          email = None, resume_rating = Some 7, phone = None, linkedin_url = None,
          portfolio_url = None, summary = None, work_experience = Some (JArr []),
          education = Some (JArr []),
          technical_skills = Some (JArr [JStr (str ''SQL''), JStr (str ''Go'')]),
          soft_skills = Some (JArr []), projects = Some (JArr []),
          certifications = Some (JArr []),
          improvement_areas = Some (str ''No specific improvement areas identified.''),
          upskill_suggestions = Some (JArr []), created_at = 1, updated_at = 1\<rparr>],
      next_id = 2\<rparr>"

definition listed :: "int \<Rightarrow> resume_summary" where
  "listed i =
     \<lparr>resume_id = i, file_name = str ''cv.pdf'', uploaded_at = nat i, name = None,
      email = None, resume_rating = Some 7,
      improvement_summary = Some (str ''No specific improvement areas identified.'')\<rparr>"

section \<open>String literals\<close>

lemma unat_of_char: "unat (of_char c :: 16 word) = of_char c"
proof -
  have "(of_char c :: 16 word) = of_nat (of_char c)" by (simp only: of_nat_of_char)
  moreover have "(of_char c :: nat) < 65536"
    using nat_of_char_less_256[of c] by linarith
  ultimately show ?thesis by (simp add: unat_of_nat)
qed

lemma of_char_word_eq_iff [simp]: "(of_char c :: 16 word) = of_char d \<longleftrightarrow> c = d"
proof
  assume "(of_char c :: 16 word) = of_char d"
  then have "unat (of_char c :: 16 word) = unat (of_char d :: 16 word)" by simp
  then show "c = d" by (simp only: unat_of_char of_char_eq_iff)
qed simp

lemma str_eq_iff [simp]: "str a = str b \<longleftrightarrow> a = b"
  unfolding str_def by (induction a arbitrary: b) (auto simp: map_eq_Cons_conv Cons_eq_map_conv)

section \<open>Rating validation\<close>

lemma unat_digit_char: "d < 10 \<Longrightarrow> unat (digit_char d) = 48 + d"
  by (simp only: digit_char_def unat_of_nat) simp

lemma digit_char_range: "d < 10 \<Longrightarrow> 0x30 \<le> digit_char d \<and> digit_char d \<le> 0x39"
  by (simp add: word_le_nat_alt unat_digit_char)

lemma dec_val_digit_char [simp]: "d < 10 \<Longrightarrow> dec_val (digit_char d) = Some d"
  using digit_char_range[of d] by (simp add: dec_val_def unat_digit_char)

lemma digit_cases:
  "d < 10 \<Longrightarrow> d = 0 \<or> d = 1 \<or> d = 2 \<or> d = 3 \<or> d = 4 \<or> d = 5 \<or> d = 6 \<or> d = 7 \<or> d = 8 \<or> d = (9::nat)"
  by arith

lemma digit_char_neq:
  assumes "d < 10"
  shows "\<not> isWhiteSpace (digit_char d)" "digit_char d \<noteq> 0x2D" "digit_char d \<noteq> 0x2B"
    "digit_char d \<noteq> 0x78" "digit_char d \<noteq> 0x58"
  using digit_cases[OF assms]
  by (auto simp: isWhiteSpace_def digit_char_def)

lemma radix_value_append:
  "radix_value R (xs @ ys) = radix_value R xs * R ^ length ys + radix_value R ys"
proof (induction ys rule: rev_induct)
  case Nil
  then show ?case by (simp add: radix_value_def)
next
  case (snoc y ys)
  then show ?case by (simp add: radix_value_def algebra_simps)
qed

lemma radix_int_eq: "radix_int (int R) ds = int (radix_value R ds)"
proof (induction ds rule: rev_induct)
  case Nil
  then show ?case by (simp add: radix_int_def radix_value_def)
next
  case (snoc d ds)
  then show ?case by (simp add: radix_int_def radix_value_def)
qed

lemma radix_int_10: "radix_int 10 ds = int (radix_value 10 ds)"
  using radix_int_eq[of 10 ds] by simp

lemma radix_value_bound: "\<forall>d \<in> set ds. d < 10 \<Longrightarrow> radix_value 10 ds < 10 ^ length ds"
proof (induction ds rule: rev_induct)
  case Nil
  then show ?case by (simp add: radix_value_def)
next
  case (snoc d ds)
  then have "radix_value 10 ds < 10 ^ length ds" "d < 10" by auto
  then have "radix_value 10 ds * 10 + d < 10 ^ length ds * 10" by arith
  then show ?case by (simp add: radix_value_append) (simp add: radix_value_def)
qed

lemma radix_value_replicate0: "radix_value R (replicate j 0) = 0"
  by (induction j) (simp_all add: radix_value_def)

lemma digit_prefix_digits:
  "\<forall>d \<in> set ds. d < 10 \<Longrightarrow> rest = [] \<or> dec_val (hd rest) = None \<Longrightarrow>
   digit_prefix dec_val (map digit_char ds @ rest) = ds"
  by (induction ds) (cases rest; simp)+


lemma parseInt_string_digits:
  assumes "ds \<noteq> []" and "\<forall>d \<in> set ds. d < 10" and "rest = [] \<or> hd rest = 0x2E"
  shows "parseInt_string ((if ng then str ''-'' else []) @ map digit_char ds @ rest) =
         Some ((if ng then - 1 else 1) * int (radix_value 10 ds))"
proof -
  obtain d ds' where ds: "ds = d # ds'" using assms(1) by (cases ds) auto
  have d: "d < 10" using assms(2) ds by simp
  have rest: "rest = [] \<or> dec_val (hd rest) = None"
    using assms(3) by (auto simp: dec_val_def)
  let ?S1 = "map digit_char ds @ rest"
  have nohex: "take 2 ?S1 \<noteq> str ''0x'' \<and> take 2 ?S1 \<noteq> str ''0X''"
  proof (cases ds')
    case Nil
    then show ?thesis using assms(3) ds by (cases rest) (auto simp: str_def)
  next
    case (Cons d' ds'')
    then have "d' < 10" using assms(2) ds by simp
    then show ?thesis using ds Cons digit_char_neq[of d'] by (simp add: str_def)
  qed
  have pre: "digit_prefix dec_val ?S1 = ds"
    using digit_prefix_digits[OF assms(2) rest] .
  show ?thesis
  proof (cases ng)
    case True
    have "dropWhile isWhiteSpace (str ''-'' @ ?S1) = str ''-'' @ ?S1"
      by (simp add: str_def isWhiteSpace_def)
    then show ?thesis using True nohex pre assms(1)
      by (simp add: parseInt_string_def Let_def radix_int_10) (simp add: str_def)
  next
    case False
    have "dropWhile isWhiteSpace ?S1 = ?S1"
      using ds digit_char_neq(1)[OF d] by simp
    moreover have "hd ?S1 \<noteq> 0x2D" "hd ?S1 \<noteq> 0x2B" "?S1 \<noteq> []"
      using ds digit_char_neq[OF d] by simp_all
    ultimately show ?thesis using False nohex pre assms(1)
      by (simp add: parseInt_string_def Let_def radix_int_10)
  qed
qed

lemma radix_value_take:
  assumes "\<forall>d \<in> set ds. d < 10"
  shows "radix_value 10 (take j ds) = radix_value 10 ds div 10 ^ (length ds - j)"
proof -
  have "radix_value 10 ds = radix_value 10 (take j ds) * 10 ^ length (drop j ds) + radix_value 10 (drop j ds)"
    using radix_value_append[of 10 "take j ds" "drop j ds"] by simp
  moreover have "radix_value 10 (drop j ds) < 10 ^ length (drop j ds)"
    using assms by (intro radix_value_bound) (auto dest: in_set_dropD)
  ultimately show ?thesis by simp
qed

lemma parseInt_plain:
  assumes "canonical x" and "- 6 < point x" and "point x \<le> 21"
  shows "parseInt_string (Number_toString x) = Some (integer_part x)"
proof (cases "digits x = []")
  case True
  then have "\<not> neg x" "point x = 0" using assms(1) by (simp_all add: canonical_def)
  moreover have "parseInt_string (str ''0'') = Some 0" by code_simp
  ultimately show ?thesis using True
    by (simp add: Number_toString_def integer_part_def radix_value_def)
next
  case False
  let ?ds = "digits x" and ?n = "point x"
  let ?k = "int (length ?ds)"
  let ?sg = "if neg x then str ''-'' else []"
  have lt: "\<forall>d \<in> set ?ds. d < 10" using assms(1) by (simp add: canonical_def)
  consider (int) "?k \<le> ?n" | (frac) "0 < ?n" "?n < ?k" | (small) "?n \<le> 0"
    by linarith
  then show ?thesis
  proof cases
    case int
    let ?j = "nat (?n - ?k)"
    have "Number_toString x = ?sg @ map digit_char (?ds @ replicate ?j 0) @ []"
      using False int assms(3) by (simp add: Number_toString_def Let_def)
    moreover have "parseInt_string (?sg @ map digit_char (?ds @ replicate ?j 0) @ []) =
        Some ((if neg x then - 1 else 1) * int (radix_value 10 (?ds @ replicate ?j 0)))"
      using False lt by (intro parseInt_string_digits) auto
    ultimately show ?thesis using int
      by (simp add: integer_part_def Let_def radix_value_append radix_value_replicate0)
  next
    case frac
    let ?j = "nat ?n"
    have "Number_toString x = ?sg @ map digit_char (take ?j ?ds) @ (0x2E # map digit_char (drop ?j ?ds))"
      using False frac assms(3) by (simp add: Number_toString_def Let_def str_def take_map drop_map)
    moreover have "parseInt_string (?sg @ map digit_char (take ?j ?ds) @ (0x2E # map digit_char (drop ?j ?ds))) =
        Some ((if neg x then - 1 else 1) * int (radix_value 10 (take ?j ?ds)))"
      using False lt frac by (intro parseInt_string_digits) (auto dest: in_set_takeD)
    moreover have "length ?ds - ?j = nat (?k - ?n)" using frac by linarith
    ultimately show ?thesis using frac radix_value_take[OF lt, of ?j]
      by (simp add: integer_part_def Let_def zdiv_int)
  next
    case small
    let ?z = "replicate (nat (- ?n)) (digit_char 0)"
    have kpos: "\<not> ?k \<le> ?n" using False small by (cases "digits x") auto
    have "Number_toString x = ?sg @ map digit_char [0] @ (0x2E # ?z @ map digit_char ?ds)"
      using False small assms(2) kpos by (simp add: Number_toString_def Let_def str_def digit_char_def)
    moreover have "parseInt_string (?sg @ map digit_char [0] @ (0x2E # ?z @ map digit_char ?ds)) =
        Some ((if neg x then - 1 else 1) * int (radix_value 10 [0]))"
      by (intro parseInt_string_digits) auto
    moreover have "radix_value 10 ?ds < 10 ^ nat (?k - ?n)"
    proof -
      have "radix_value 10 ?ds < 10 ^ length ?ds" using lt by (rule radix_value_bound)
      also have "(10::nat) ^ length ?ds \<le> 10 ^ nat (?k - ?n)"
        using small by (intro power_increasing) auto
      finally show ?thesis .
    qed
    then have "int (radix_value 10 ?ds) div 10 ^ nat (?k - ?n) = 0"
      by (simp add: zdiv_int[symmetric] del: zdiv_int)
    ultimately show ?thesis using small False kpos
      by (simp add: integer_part_def Let_def radix_value_def)
  qed
qed

lemma validateRating_range: "validateRating r = Inr k \<Longrightarrow> 1 \<le> k \<and> k \<le> 10"
  by (auto simp: validateRating_def split: sum.splits option.splits if_splits)

lemma ToString_error: "ToString v = Inl e \<Longrightarrow> e = TypeError"
  and join_elements_error: "join_elements vs = Inl e \<Longrightarrow> e = TypeError"
  by (induction v and vs rule: ToString_join_elements.induct)
     (auto split: if_splits sum.splits)

text \<open>
  What \<open>validateRating\<close> computes. It throws \<open>TypeError\<close> exactly when converting
  the value to a string throws; otherwise the string form of the value is read by
  \<open>parseInt\<close>, a failed parse gives 1, a parsed integer below 1 gives 1 and one above
  10 gives 10. For a number that prints in plain decimal notation (zero, or a magnitude
  from \<open>10\<^sup>-\<^sup>6\<close> up to but excluding \<open>10\<^sup>2\<^sup>1\<close>) the parsed integer is the integer part of
  the value. The inputs \<open>0\<close>, \<open>11\<close>, \<open>"abc"\<close>, \<open>null\<close> and \<open>7.9\<close> give
  1, 10, 1, 1 and 7.
\<close>

lemma validateRating_parsed:
  "(\<forall>k. validateRating r = Inr k \<longrightarrow> 1 \<le> k \<and> k \<le> 10) \<and>
   (\<forall>e. validateRating r = Inl e \<longleftrightarrow> e = TypeError \<and> ToString_value r = Inl TypeError) \<and>
   (\<forall>s. ToString_value r = Inr s \<longrightarrow>
        validateRating r =
          Inr (case parseInt_string s of None \<Rightarrow> 1 | Some n \<Rightarrow> clamp_rating n)) \<and>
   (canonical x \<and> - 6 < point x \<and> point x \<le> 21 \<longrightarrow>
        validateRating (Some (JNum x)) = Inr (clamp_rating (integer_part x))) \<and>
   validateRating (Some (JNum (Num False [] 0))) = Inr 1 \<and>
   validateRating (Some (JNum (Num False [1, 1] 2))) = Inr 10 \<and>
   validateRating (Some (JStr (str ''abc''))) = Inr 1 \<and>
   validateRating (Some JNull) = Inr 1 \<and>
   validateRating (Some (JNum (Num False [7, 9] 1))) = Inr 7"
proof -
  have range: "\<forall>k. validateRating r = Inr k \<longrightarrow> 1 \<le> k \<and> k \<le> 10"
    using validateRating_range by blast
  have err: "\<forall>e. validateRating r = Inl e \<longleftrightarrow> e = TypeError \<and> ToString_value r = Inl TypeError"
  proof (cases "ToString_value r")
    case (Inl e')
    then have "e' = TypeError"
      by (cases r) (auto simp: ToString_value_def str_def dest: ToString_error)
    then show ?thesis using Inl by (auto simp: validateRating_def parseInt_def)
  next
    case (Inr s)
    then show ?thesis
      by (auto simp: validateRating_def parseInt_def split: option.splits)
  qed
  have parsed: "\<forall>s. ToString_value r = Inr s \<longrightarrow>
      validateRating r = Inr (case parseInt_string s of None \<Rightarrow> 1 | Some n \<Rightarrow> clamp_rating n)"
    by (auto simp: validateRating_def parseInt_def clamp_rating_def split: option.splits)
  have plain: "canonical x \<and> - 6 < point x \<and> point x \<le> 21 \<longrightarrow>
      validateRating (Some (JNum x)) = Inr (clamp_rating (integer_part x))"
    using parseInt_plain[of x]
    by (auto simp: validateRating_def parseInt_def ToString_value_def clamp_rating_def)
  have e1: "validateRating (Some (JNum (Num False [] 0))) = Inr 1" by code_simp
  have e2: "validateRating (Some (JNum (Num False [1, 1] 2))) = Inr 10" by code_simp
  have e3: "validateRating (Some (JStr (str ''abc''))) = Inr 1" by code_simp
  have e4: "validateRating (Some JNull) = Inr 1" by code_simp
  have e5: "validateRating (Some (JNum (Num False [7, 9] 1))) = Inr 7" by code_simp
  show ?thesis using range err parsed plain e1 e2 e3 e4 e5 by blast
qed

text \<open>
  C2. A rating that prints in exponent notation is read only up to its exponent mark.
  The number \<open>1e21\<close> is above 10 and prints as \<open>1e+21\<close>: the result is 1, not 10.
  The number \<open>5e-7\<close> has the integer part 0 and prints as \<open>5e-7\<close>: the result is 5,
  not 1. \<open>Infinity\<close> is above 10 and prints as \<open>Infinity\<close>: the result is 1, not 10.
\<close>

theorem validateRating_misreads_exponent:
  "10 < integer_part (Num False [1] 22) \<and>
   Number_toString (Num False [1] 22) = str ''1e+21'' \<and>
   validateRating (Some (JNum (Num False [1] 22))) = Inr 1 \<and>
   integer_part (Num False [5] (- 6)) = 0 \<and>
   Number_toString (Num False [5] (- 6)) = str ''5e-7'' \<and>
   validateRating (Some (JNum (Num False [5] (- 6)))) = Inr 5 \<and>
   validateRating (Some (JInf False)) = Inr 1"
  by code_simp

section \<open>The sanitizer: shape of the result and fixed points\<close>

lemma truthy_js_or: "truthy b \<Longrightarrow> truthy (js_or a b)"
  by (simp add: js_or_def split: option.splits)

lemma member_JObj [simp]: "member (JObj kv) k = map_of kv k"
  by (simp add: member_def)

lemma js_or_idem [simp]: "js_or (Some (js_or a b)) b = js_or a b"
  by (simp add: js_or_def split: option.splits)

lemma js_or_truthy [simp]: "truthy v \<Longrightarrow> js_or (Some v) b = v"
  by (simp add: js_or_def)

lemma truthy_str [simp]: "truthy (JStr (str s)) \<longleftrightarrow> s \<noteq> []"
  by (simp add: str_def)

lemma mapE_idem:
  assumes "mapE f xs = Inr ys" and "\<And>x y. f x = Inr y \<Longrightarrow> f y = Inr y"
  shows "mapE f ys = Inr ys"
  using assms(1)
proof (induction xs arbitrary: ys)
  case Nil
  then show ?case by simp
next
  case (Cons x xs)
  then show ?case by (auto split: sum.splits dest: assms(2))
qed

lemma mapE_length: "mapE f xs = Inr ys \<Longrightarrow> length ys = length xs"
  by (induction xs arbitrary: ys) (auto split: sum.splits)

lemma sanitize_work_experience_idem:
  "sanitize_work_experience x = Inr y \<Longrightarrow> sanitize_work_experience y = Inr y"
  by (auto simp: sanitize_work_experience_def split: if_splits option.splits json.splits)

lemma sanitize_education_idem:
  "sanitize_education x = Inr y \<Longrightarrow> sanitize_education y = Inr y"
  by (auto simp: sanitize_education_def split: if_splits)

lemma sanitize_project_idem:
  "sanitize_project x = Inr y \<Longrightarrow> sanitize_project y = Inr y"
  by (auto simp: sanitize_project_def array_or_empty_def split: if_splits)

lemma sanitize_certification_idem:
  "sanitize_certification x = Inr y \<Longrightarrow> sanitize_certification y = Inr y"
  by (auto simp: sanitize_certification_def split: if_splits)

lemma length_str [simp]: "length (str s) = length s"
  by (simp add: str_def)

lemma truncate_field_idem:
  assumes "truncate_field limit keep v = Inr w" and "keep + 3 \<le> limit"
  shows "truncate_field limit keep w = Inr w"
proof (cases "truthy v")
  case False
  then show ?thesis using assms by (simp add: truncate_field_def)
next
  case True
  then obtain longer where l: "length_gt v limit = Inr longer"
    using assms(1) by (auto simp: truncate_field_def split: sum.splits)
  show ?thesis
  proof (cases longer)
    case False
    then show ?thesis using assms True l by (simp add: truncate_field_def)
  next
    case True
    then obtain s where s: "v = JStr s" "w = JStr (take keep s @ str ''...'')"
      using assms(1) \<open>truthy v\<close> l by (auto simp: truncate_field_def split: json.splits)
    then have "limit < length s" using l True by (simp add: length_gt_def)
    then have "length (take keep s @ str ''...'') \<le> limit" using assms(2) by simp
    then show ?thesis using s by (simp add: truncate_field_def length_gt_def str_def)
  qed
qed

lemma truncate_field_js_or:
  assumes "truncate_field limit keep (js_or a b) = Inr w"
  shows "js_or (Some w) b = w"
proof (cases "truthy w")
  case True
  then show ?thesis by simp
next
  case False
  then have "w = js_or a b" using assms
    by (auto simp: truncate_field_def str_def split: if_splits sum.splits json.splits)
  then show ?thesis by (simp add: js_or_idem)
qed

lemma validateRating_jsnum_of_int:
  assumes "1 \<le> r" and "r \<le> 10"
  shows "validateRating (Some (JNum (jsnum_of_int r))) = Inr r"
proof -
  have "r = 1 \<or> r = 2 \<or> r = 3 \<or> r = 4 \<or> r = 5 \<or> r = 6 \<or> r = 7 \<or> r = 8 \<or> r = 9 \<or> r = 10"
    using assms by arith
  moreover have "validateRating (Some (JNum (jsnum_of_int 1))) = Inr 1" by code_simp
  moreover have "validateRating (Some (JNum (jsnum_of_int 2))) = Inr 2" by code_simp
  moreover have "validateRating (Some (JNum (jsnum_of_int 3))) = Inr 3" by code_simp
  moreover have "validateRating (Some (JNum (jsnum_of_int 4))) = Inr 4" by code_simp
  moreover have "validateRating (Some (JNum (jsnum_of_int 5))) = Inr 5" by code_simp
  moreover have "validateRating (Some (JNum (jsnum_of_int 6))) = Inr 6" by code_simp
  moreover have "validateRating (Some (JNum (jsnum_of_int 7))) = Inr 7" by code_simp
  moreover have "validateRating (Some (JNum (jsnum_of_int 8))) = Inr 8" by code_simp
  moreover have "validateRating (Some (JNum (jsnum_of_int 9))) = Inr 9" by code_simp
  moreover have "validateRating (Some (JNum (jsnum_of_int 10))) = Inr 10" by code_simp
  ultimately show ?thesis by blast
qed

text \<open>The shape of every result of the sanitizer.\<close>

lemma sanitize_result:
  assumes "validateAndSanitizeAnalysis a f = Inr out"
  obtains r we ed pr ce su im where
    "validateRating (member a (str ''resume_rating'')) = Inr r"
    "mapE sanitize_work_experience (array_or_empty (member a (str ''work_experience''))) = Inr we"
    "mapE sanitize_education (array_or_empty (member a (str ''education''))) = Inr ed"
    "mapE sanitize_project (array_or_empty (member a (str ''projects''))) = Inr pr"
    "mapE sanitize_certification (array_or_empty (member a (str ''certifications''))) = Inr ce"
    "truncate_field 1000 997 (js_or (member a (str ''summary'')) JNull) = Inr su"
    "truncate_field 2000 1997 (js_or (member a (str ''improvement_areas''))
        (JStr (str ''No specific improvement areas identified.''))) = Inr im"
    "out = JObj
            [(str ''name'', js_or (member a (str ''name'')) JNull),
             (str ''email'', js_or (member a (str ''email'')) JNull),
             (str ''phone'', js_or (member a (str ''phone'')) JNull),
             (str ''linkedin_url'', js_or (member a (str ''linkedin_url'')) JNull),
             (str ''portfolio_url'', js_or (member a (str ''portfolio_url'')) JNull),
             (str ''summary'', su),
             (str ''work_experience'', JArr we),
             (str ''education'', JArr ed),
             (str ''technical_skills'', JArr (array_or_empty (member a (str ''technical_skills'')))),
             (str ''soft_skills'', JArr (array_or_empty (member a (str ''soft_skills'')))),
             (str ''projects'', JArr pr),
             (str ''certifications'', JArr ce),
             (str ''resume_rating'', JNum (jsnum_of_int r)),
             (str ''improvement_areas'', im),
             (str ''upskill_suggestions'', JArr (array_or_empty (member a (str ''upskill_suggestions''))))]"
  using assms unfolding validateAndSanitizeAnalysis_def
  by (auto split: if_splits sum.splits)

text \<open>
  C10. The sanitizer is idempotent: whenever it returns, applying it to its own result
  (with any file name) returns that result unchanged.
\<close>

theorem sanitizer_idempotent:
  assumes "validateAndSanitizeAnalysis a f = Inr out"
  shows "validateAndSanitizeAnalysis out g = Inr out"
proof -
  from assms obtain r we ed pr ce su im where
    r: "validateRating (member a (str ''resume_rating'')) = Inr r" and
    we: "mapE sanitize_work_experience (array_or_empty (member a (str ''work_experience''))) = Inr we" and
    ed: "mapE sanitize_education (array_or_empty (member a (str ''education''))) = Inr ed" and
    pr: "mapE sanitize_project (array_or_empty (member a (str ''projects''))) = Inr pr" and
    ce: "mapE sanitize_certification (array_or_empty (member a (str ''certifications''))) = Inr ce" and
    su: "truncate_field 1000 997 (js_or (member a (str ''summary'')) JNull) = Inr su" and
    im: "truncate_field 2000 1997 (js_or (member a (str ''improvement_areas''))
        (JStr (str ''No specific improvement areas identified.''))) = Inr im" and
    out: "out = JObj
            [(str ''name'', js_or (member a (str ''name'')) JNull),
             (str ''email'', js_or (member a (str ''email'')) JNull),
             (str ''phone'', js_or (member a (str ''phone'')) JNull),
             (str ''linkedin_url'', js_or (member a (str ''linkedin_url'')) JNull),
             (str ''portfolio_url'', js_or (member a (str ''portfolio_url'')) JNull),
             (str ''summary'', su),
             (str ''work_experience'', JArr we),
             (str ''education'', JArr ed),
             (str ''technical_skills'', JArr (array_or_empty (member a (str ''technical_skills'')))),
             (str ''soft_skills'', JArr (array_or_empty (member a (str ''soft_skills'')))),
             (str ''projects'', JArr pr),
             (str ''certifications'', JArr ce),
             (str ''resume_rating'', JNum (jsnum_of_int r)),
             (str ''improvement_areas'', im),
             (str ''upskill_suggestions'', JArr (array_or_empty (member a (str ''upskill_suggestions''))))]"
    by (rule sanitize_result)
  have r': "validateRating (Some (JNum (jsnum_of_int r))) = Inr r"
    using validateRating_range[OF r] by (intro validateRating_jsnum_of_int) auto
  have we': "mapE sanitize_work_experience we = Inr we"
    using we sanitize_work_experience_idem by (rule mapE_idem)
  have ed': "mapE sanitize_education ed = Inr ed"
    using ed sanitize_education_idem by (rule mapE_idem)
  have pr': "mapE sanitize_project pr = Inr pr"
    using pr sanitize_project_idem by (rule mapE_idem)
  have ce': "mapE sanitize_certification ce = Inr ce"
    using ce sanitize_certification_idem by (rule mapE_idem)
  have su': "truncate_field 1000 997 su = Inr su"
    using su by (rule truncate_field_idem) simp
  have im': "truncate_field 2000 1997 im = Inr im"
    using im by (rule truncate_field_idem) simp
  have su_or: "js_or (Some su) JNull = su"
    using su by (rule truncate_field_js_or)
  have im_or: "js_or (Some im) (JStr (str ''No specific improvement areas identified.'')) = im"
    using im by (rule truncate_field_js_or)
  show ?thesis
    unfolding validateAndSanitizeAnalysis_def out
    by (simp add: r' we' ed' pr' ce' su' im' su_or im_or array_or_empty_def)
qed

lemma sanitizer_schema:
  assumes "validateAndSanitizeAnalysis a f = Inr out"
  shows "satisfies_schema out"
proof -
  from assms obtain r we ed pr ce su im where
    r: "validateRating (member a (str ''resume_rating'')) = Inr r" and
    out: "out = JObj
            [(str ''name'', js_or (member a (str ''name'')) JNull),
             (str ''email'', js_or (member a (str ''email'')) JNull),
             (str ''phone'', js_or (member a (str ''phone'')) JNull),
             (str ''linkedin_url'', js_or (member a (str ''linkedin_url'')) JNull),
             (str ''portfolio_url'', js_or (member a (str ''portfolio_url'')) JNull),
             (str ''summary'', su),
             (str ''work_experience'', JArr we),
             (str ''education'', JArr ed),
             (str ''technical_skills'', JArr (array_or_empty (member a (str ''technical_skills'')))),
             (str ''soft_skills'', JArr (array_or_empty (member a (str ''soft_skills'')))),
             (str ''projects'', JArr pr),
             (str ''certifications'', JArr ce),
             (str ''resume_rating'', JNum (jsnum_of_int r)),
             (str ''improvement_areas'', im),
             (str ''upskill_suggestions'', JArr (array_or_empty (member a (str ''upskill_suggestions''))))]"
    by (rule sanitize_result)
  have "1 \<le> r \<and> r \<le> 10" using validateRating_range[OF r] .
  then have "r \<in> set [1..10]" by simp
  then have "is_rating (Some (JNum (jsnum_of_int r)))"
    unfolding is_rating_def by (simp del: upto.simps set_upto)
  then show ?thesis
    unfolding out satisfies_schema_def analysis_fields_def list_fields_def
    by (simp add: is_array_def)
qed

text \<open>
  C1 fails on the code: an array element \<open>null\<close> makes the \<open>map\<close> callback throw.
  The input is the decoded JSON object \<open>{"work_experience": [null]}\<close>.
\<close>

theorem sanitizer_throws_on_null_item:
  "validateAndSanitizeAnalysis (JObj [(str ''work_experience'', JArr [JNull])]) fileName
     = Inl TypeError"
  by (simp add: validateAndSanitizeAnalysis_def validateRating_def parseInt_def
        ToString_value_def array_or_empty_def sanitize_work_experience_def
        split: sum.splits option.splits)

text \<open>The sanitizer on the analysis of the scenario.\<close>

lemma raw_analysis_run:
  "validateAndSanitizeAnalysis raw_analysis (str ''cv.pdf'') = Inr clean_analysis"
proof -
  have nn: "raw_analysis \<noteq> JNull" by (simp add: raw_analysis_def)
  have r: "validateRating (member raw_analysis (str ''resume_rating'')) = Inr 10"
    unfolding raw_analysis_def member_JObj by code_simp
  have n: "jsnum_of_int 10 = Num False [1] 2" by code_simp
  have we: "mapE sanitize_work_experience
              (array_or_empty (member raw_analysis (str ''work_experience'')))
            = Inr [JObj [(str ''role'', JStr (str ''Engineer'')),
                         (str ''company'', JStr (str ''Not specified'')),
                         (str ''duration'', JStr (str ''Not specified'')),
                         (str ''description'', JArr [JStr (str ''No description provided'')])]]"
    unfolding raw_analysis_def member_JObj by code_simp
  have ed: "mapE sanitize_education (array_or_empty (member raw_analysis (str ''education'')))
            = Inr []"
    and pr: "mapE sanitize_project (array_or_empty (member raw_analysis (str ''projects'')))
            = Inr []"
    and ce: "mapE sanitize_certification
               (array_or_empty (member raw_analysis (str ''certifications''))) = Inr []"
    by (simp_all add: raw_analysis_def array_or_empty_def)
  have su: "truncate_field 1000 997 (js_or (member raw_analysis (str ''summary'')) JNull)
            = Inr (JStr (replicate 997 0x61 @ str ''...''))"
    by (simp add: raw_analysis_def js_or_def truncate_field_def length_gt_def)
  have im: "truncate_field 2000 1997
              (js_or (member raw_analysis (str ''improvement_areas''))
                 (JStr (str ''No specific improvement areas identified.'')))
            = Inr (JStr (replicate 1997 0x62 @ str ''...''))"
    by (simp add: raw_analysis_def js_or_def truncate_field_def length_gt_def)
  have o: "js_or (member raw_analysis (str ''name'')) JNull = JNull"
    "js_or (member raw_analysis (str ''email'')) JNull = JNull"
    "js_or (member raw_analysis (str ''phone'')) JNull = JNull"
    "js_or (member raw_analysis (str ''linkedin_url'')) JNull = JNull"
    "js_or (member raw_analysis (str ''portfolio_url'')) JNull = JNull"
    "array_or_empty (member raw_analysis (str ''technical_skills'')) = []"
    "array_or_empty (member raw_analysis (str ''soft_skills'')) = []"
    "array_or_empty (member raw_analysis (str ''upskill_suggestions'')) = []"
    by (simp_all add: raw_analysis_def js_or_def array_or_empty_def)
  show ?thesis
    unfolding validateAndSanitizeAnalysis_def clean_analysis_def
    by (simp only: nn r n we ed pr ce su im o if_False sum.case)
qed

text \<open>
  The analysis of the scenario and its result: the rating 11 is clamped to 10, both
  texts are cut, the work experience gets its defaults, and sanitizing the result again
  changes nothing.
\<close>

theorem sanitizer_idempotent_witness:
  "validateAndSanitizeAnalysis raw_analysis (str ''cv.pdf'') = Inr clean_analysis \<and>
   validateAndSanitizeAnalysis clean_analysis (str ''cv.pdf'') = Inr clean_analysis"
  using sanitizer_idempotent[OF raw_analysis_run] raw_analysis_run by blast

text \<open>When the parts of the sanitizer return.\<close>

lemma validateRating_returns:
  "(\<exists>r. validateRating v = Inr r) \<longleftrightarrow> (\<exists>t. ToString_value v = Inr t)"
  by (cases "ToString_value v")
     (auto simp: validateRating_def parseInt_def split: option.splits)

lemma mapE_returns:
  "(\<exists>ys. mapE f xs = Inr ys) \<longleftrightarrow> (\<forall>x \<in> set xs. \<exists>y. f x = Inr y)"
proof (induction xs)
  case Nil
  then show ?case by simp
next
  case (Cons x xs)
  show ?case
  proof (cases "f x")
    case (Inl e)
    then show ?thesis by auto
  next
    case (Inr y)
    then show ?thesis using Cons by (cases "mapE f xs") auto
  qed
qed

lemma items_return:
  "(\<exists>ys. mapE sanitize_work_experience xs = Inr ys) \<longleftrightarrow> JNull \<notin> set xs"
  "(\<exists>ys. mapE sanitize_education xs = Inr ys) \<longleftrightarrow> JNull \<notin> set xs"
  "(\<exists>ys. mapE sanitize_project xs = Inr ys) \<longleftrightarrow> JNull \<notin> set xs"
  "(\<exists>ys. mapE sanitize_certification xs = Inr ys) \<longleftrightarrow> JNull \<notin> set xs"
  unfolding mapE_returns
  by (auto simp: sanitize_work_experience_def sanitize_education_def sanitize_project_def
      sanitize_certification_def)

lemma truncate_field_text:
  "truncate_field limit keep (JStr s)
     = Inr (JStr (if limit < length s then take keep s @ str ''...'' else s))"
  by (simp add: truncate_field_def length_gt_def)

lemma truncate_field_short:
  "length_gt v limit = Inr False \<Longrightarrow> truncate_field limit keep v = Inr v"
  by (simp add: truncate_field_def)

lemma truncate_field_capped:
  assumes "is_text v \<or> length_gt v limit = Inr False"
  shows "truncate_field limit keep v = Inr (capped limit keep v)"
proof (cases v)
  case (JStr s)
  then show ?thesis by (simp add: truncate_field_text capped_def)
next
  case JNull
  then show ?thesis using assms by (simp add: truncate_field_def capped_def)
next
  case (JBool b)
  then show ?thesis using assms by (simp add: truncate_field_short capped_def is_text_def)
next
  case (JNum x)
  then show ?thesis using assms by (simp add: truncate_field_short capped_def is_text_def)
next
  case (JInf b)
  then show ?thesis using assms by (simp add: truncate_field_short capped_def is_text_def)
next
  case (JArr xs)
  then show ?thesis using assms by (simp add: truncate_field_short capped_def is_text_def)
next
  case (JObj kv)
  then show ?thesis using assms by (simp add: truncate_field_short capped_def is_text_def)
qed

lemma truncate_field_returns:
  "(\<exists>w. truncate_field limit keep v = Inr w) \<longleftrightarrow> is_text v \<or> length_gt v limit = Inr False"
proof
  assume "is_text v \<or> length_gt v limit = Inr False"
  then show "\<exists>w. truncate_field limit keep v = Inr w"
    using truncate_field_capped by blast
next
  assume "\<exists>w. truncate_field limit keep v = Inr w"
  then obtain w where w: "truncate_field limit keep v = Inr w" by blast
  show "is_text v \<or> length_gt v limit = Inr False"
  proof (cases "truthy v")
    case False
    then show ?thesis by (cases v) (simp_all add: length_gt_def is_text_def)
  next
    case True
    then show ?thesis using w
      by (auto simp: truncate_field_def is_text_def split: sum.splits if_splits json.splits)
  qed
qed

lemma capped_length:
  "capped limit keep v = JStr s \<Longrightarrow> keep + 3 \<le> limit \<Longrightarrow> length s \<le> limit"
  by (auto simp: capped_def split: json.splits if_splits)

text \<open>
  The sanitizer returns exactly when its input is not \<open>null\<close>, the rating has a string
  form, no item of the four rebuilt lists is \<open>null\<close>, and each capped field is a text
  or has no length above its cap.
\<close>

lemma sanitizer_returns_iff:
  "(\<exists>out. validateAndSanitizeAnalysis analysis fileName = Inr out) \<longleftrightarrow>
     analysis \<noteq> JNull
     \<and> (\<exists>t. ToString_value (member analysis (str ''resume_rating'')) = Inr t)
     \<and> (\<forall>k \<in> set item_fields. JNull \<notin> set (array_or_empty (member analysis k)))
     \<and> (is_text (js_or (member analysis (str ''summary'')) JNull)
          \<or> length_gt (js_or (member analysis (str ''summary'')) JNull) 1000 = Inr False)
     \<and> (is_text (js_or (member analysis (str ''improvement_areas''))
                   (JStr (str ''No specific improvement areas identified.'')))
          \<or> length_gt (js_or (member analysis (str ''improvement_areas''))
                   (JStr (str ''No specific improvement areas identified.''))) 2000 = Inr False)"
  (is "?L \<longleftrightarrow> ?R")
proof -
  define ra where "ra = validateRating (member analysis (str ''resume_rating''))"
  define we where "we = mapE sanitize_work_experience
                          (array_or_empty (member analysis (str ''work_experience'')))"
  define ed where "ed = mapE sanitize_education (array_or_empty (member analysis (str ''education'')))"
  define pr where "pr = mapE sanitize_project (array_or_empty (member analysis (str ''projects'')))"
  define ce where "ce = mapE sanitize_certification
                          (array_or_empty (member analysis (str ''certifications'')))"
  define su where "su = truncate_field 1000 997 (js_or (member analysis (str ''summary'')) JNull)"
  define im where "im = truncate_field 2000 1997
                          (js_or (member analysis (str ''improvement_areas''))
                             (JStr (str ''No specific improvement areas identified.'')))"
  have "?L \<longleftrightarrow> analysis \<noteq> JNull \<and> (\<exists>x. ra = Inr x) \<and> (\<exists>x. we = Inr x) \<and> (\<exists>x. ed = Inr x)
                \<and> (\<exists>x. pr = Inr x) \<and> (\<exists>x. ce = Inr x) \<and> (\<exists>x. su = Inr x) \<and> (\<exists>x. im = Inr x)"
    unfolding validateAndSanitizeAnalysis_def
      ra_def[symmetric] we_def[symmetric] ed_def[symmetric] pr_def[symmetric] ce_def[symmetric]
      su_def[symmetric] im_def[symmetric]
    by (cases ra; cases we; cases ed; cases pr; cases ce; cases su; cases im) simp_all
  then show ?thesis
    unfolding ra_def we_def ed_def pr_def ce_def su_def im_def
      validateRating_returns items_return truncate_field_returns item_fields_def
    by simp
qed

text \<open>
  C9. On every input for which it returns, the sanitizer caps both fields: with \<open>su\<close>
  the summary or \<open>null\<close> when it is missing or falsy, and \<open>im\<close> the improvement areas
  or the default text, the result holds \<open>su\<close> and \<open>im\<close> capped at 1000 and 2000, a
  longer text being replaced by its first 997 or 1997 characters followed by \<open>...\<close>; a
  text in either field of the result is never longer than its cap.
\<close>

theorem sanitizer_caps_text:
  assumes "analysis \<noteq> JNull"
    and "ToString_value (member analysis (str ''resume_rating'')) = Inr rating"
    and "\<forall>k \<in> set item_fields. JNull \<notin> set (array_or_empty (member analysis k))"
    and "su = js_or (member analysis (str ''summary'')) JNull"
    and "im = js_or (member analysis (str ''improvement_areas''))
                (JStr (str ''No specific improvement areas identified.''))"
    and "is_text su \<or> length_gt su 1000 = Inr False"
    and "is_text im \<or> length_gt im 2000 = Inr False"
  shows "\<exists>out. validateAndSanitizeAnalysis analysis fileName = Inr out
           \<and> member out (str ''summary'') = Some (capped 1000 997 su)
           \<and> member out (str ''improvement_areas'') = Some (capped 2000 1997 im)
           \<and> (\<forall>s. member out (str ''summary'') = Some (JStr s) \<longrightarrow> length s \<le> 1000)
           \<and> (\<forall>s. member out (str ''improvement_areas'') = Some (JStr s) \<longrightarrow> length s \<le> 2000)"
proof -
  have "\<exists>out. validateAndSanitizeAnalysis analysis fileName = Inr out"
    unfolding sanitizer_returns_iff using assms by blast
  then obtain out where run: "validateAndSanitizeAnalysis analysis fileName = Inr out" by blast
  from run obtain r we ed pr ce su' im' where
    su: "truncate_field 1000 997 (js_or (member analysis (str ''summary'')) JNull) = Inr su'" and
    im: "truncate_field 2000 1997 (js_or (member analysis (str ''improvement_areas''))
        (JStr (str ''No specific improvement areas identified.''))) = Inr im'" and
    out: "out = JObj
            [(str ''name'', js_or (member analysis (str ''name'')) JNull),
             (str ''email'', js_or (member analysis (str ''email'')) JNull),
             (str ''phone'', js_or (member analysis (str ''phone'')) JNull),
             (str ''linkedin_url'', js_or (member analysis (str ''linkedin_url'')) JNull),
             (str ''portfolio_url'', js_or (member analysis (str ''portfolio_url'')) JNull),
             (str ''summary'', su'),
             (str ''work_experience'', JArr we),
             (str ''education'', JArr ed),
             (str ''technical_skills'', JArr (array_or_empty (member analysis (str ''technical_skills'')))),
             (str ''soft_skills'', JArr (array_or_empty (member analysis (str ''soft_skills'')))),
             (str ''projects'', JArr pr),
             (str ''certifications'', JArr ce),
             (str ''resume_rating'', JNum (jsnum_of_int r)),
             (str ''improvement_areas'', im'),
             (str ''upskill_suggestions'', JArr (array_or_empty (member analysis (str ''upskill_suggestions''))))]"
    by (rule sanitize_result)
  have s1: "su' = capped 1000 997 su"
    using su truncate_field_capped[OF assms(6), of 997] unfolding assms(4) by simp
  have i1: "im' = capped 2000 1997 im"
    using im truncate_field_capped[OF assms(7), of 1997] unfolding assms(5) by simp
  have m: "member out (str ''summary'') = Some (capped 1000 997 su)"
    "member out (str ''improvement_areas'') = Some (capped 2000 1997 im)"
    unfolding out s1 i1 by simp_all
  have "length s \<le> 1000" if "capped 1000 997 su = JStr s" for s
    using that by (rule capped_length) simp
  moreover have "length s \<le> 2000" if "capped 2000 1997 im = JStr s" for s
    using that by (rule capped_length) simp
  ultimately show ?thesis using run m by auto
qed

text \<open>The analysis of the scenario: both texts are cut.\<close>

theorem sanitizer_caps_text_witness:
  "\<exists>out. validateAndSanitizeAnalysis raw_analysis (str ''cv.pdf'') = Inr out
     \<and> member out (str ''summary'') = Some (JStr (replicate 997 0x61 @ str ''...''))
     \<and> member out (str ''improvement_areas'') = Some (JStr (replicate 1997 0x62 @ str ''...''))"
proof -
  let ?su = "JStr (replicate 1001 0x61)" and ?im = "JStr (replicate 2001 0x62)"
  have 1: "raw_analysis \<noteq> JNull" by (simp add: raw_analysis_def)
  have 2: "ToString_value (member raw_analysis (str ''resume_rating'')) = Inr (str ''11'')"
    unfolding raw_analysis_def member_JObj by code_simp
  have 3: "\<forall>k \<in> set item_fields. JNull \<notin> set (array_or_empty (member raw_analysis k))"
    by (simp add: item_fields_def raw_analysis_def array_or_empty_def)
  have 4: "?su = js_or (member raw_analysis (str ''summary'')) JNull"
    by (simp add: raw_analysis_def js_or_def)
  have 5: "?im = js_or (member raw_analysis (str ''improvement_areas''))
                (JStr (str ''No specific improvement areas identified.''))"
    by (simp add: raw_analysis_def js_or_def)
  have 6: "is_text ?su \<or> length_gt ?su 1000 = Inr False" by (simp add: is_text_def)
  have 7: "is_text ?im \<or> length_gt ?im 2000 = Inr False" by (simp add: is_text_def)
  have c: "capped 1000 997 ?su = JStr (replicate 997 0x61 @ str ''...'')"
    "capped 2000 1997 ?im = JStr (replicate 1997 0x62 @ str ''...'')"
    by (simp_all add: capped_def)
  from sanitizer_caps_text[OF 1 2 3 4 5 6 7, of "str ''cv.pdf''"] show ?thesis
    unfolding c by blast
qed

text \<open>
  An empty summary does not pass through unchanged: it becomes \<open>null\<close>, and empty
  improvement areas become the default text.
\<close>

theorem empty_summary_becomes_null:
  "validateAndSanitizeAnalysis
     (JObj [(str ''summary'', JStr []), (str ''improvement_areas'', JStr [])]) (str ''cv.pdf'')
     = Inr (default_analysis JNull)
   \<and> member (default_analysis JNull) (str ''summary'') = Some JNull
   \<and> member (default_analysis JNull) (str ''improvement_areas'')
       = Some (JStr (str ''No specific improvement areas identified.''))"
proof -
  have r: "validateRating None = Inr 1" by code_simp
  have n: "jsnum_of_int 1 = Num False [1] 1" by code_simp
  show ?thesis
    by (simp add: validateAndSanitizeAnalysis_def member_def r n array_or_empty_def js_or_def
        truncate_field_def length_gt_def default_analysis_def)
qed

section \<open>Decimal digits\<close>

declare nat_digits.simps [simp del]

lemma nat_digits_lt: "\<forall>d \<in> set (nat_digits m). d < 10"
proof (induction m rule: nat_digits.induct)
  case (1 n)
  then show ?case by (subst nat_digits.simps) auto
qed

lemma nat_digits_nonempty: "nat_digits m \<noteq> []"
  by (subst nat_digits.simps) simp

lemma radix_value_nat_digits: "radix_value 10 (nat_digits m) = m"
proof (induction m rule: nat_digits.induct)
  case (1 n)
  show ?case
  proof (cases "n < 10")
    case True
    then show ?thesis by (subst nat_digits.simps) (simp add: radix_value_def)
  next
    case False
    then show ?thesis using 1
      by (subst nat_digits.simps) (simp add: radix_value_append, simp add: radix_value_def)
  qed
qed

section \<open>The upload endpoint on failures of the service\<close>

lemma parseInt_show_nat: "parseInt_string (show_nat n) = Some (int n)"
proof -
  have "parseInt_string ((if False then str ''-'' else []) @ map digit_char (nat_digits n) @ [])
        = Some ((if False then - 1 else 1) * int (radix_value 10 (nat_digits n)))"
    using nat_digits_nonempty nat_digits_lt by (intro parseInt_string_digits) auto
  then show ?thesis by (simp add: show_nat_def radix_value_nat_digits)
qed

lemma trim_letters: "trim (replicate n 0x61) = replicate n 0x61"
  by (simp add: trim_def trimStart_def trimEnd_def isWhiteSpace_def)

lemma extract_long_text:
  "extractTextFromPDF (PdfData (Some (replicate 60 0x61))) fileName = Inr (replicate 60 0x61)"
  by (simp add: extractTextFromPDF_def trim_letters)

lemma timeout_is_408:
  "analyzeWithAI True (AiError (str ''Request timeout'') None) text fileName
     = Inl (AppError (str ''AI analysis is taking longer than expected. Please try again.'') 408)"
proof -
  have "\<not> string_includes (str ''Request timeout'') (str ''API key'')"
    "\<not> string_includes (str ''Request timeout'') (str ''quota'')"
    "\<not> string_includes (str ''Request timeout'') (str ''QUOTA_EXCEEDED'')"
    "\<not> string_includes (str ''Request timeout'') (str ''RATE_LIMIT'')"
    "string_includes (str ''Request timeout'') (str ''timeout'')"
    by code_simp+
  then show ?thesis by (simp add: analyzeWithAI_def)
qed

lemma upload_failure_timeout:
  "upload_failure (AppError (str ''AI analysis is taking longer than expected. Please try again.'') 408)
   = failure 500 (str ''An error occurred while processing your resume. Please try again.'')"
proof -
  have "\<not> string_includes (str ''AI analysis is taking longer than expected. Please try again.'') (str ''PDF parsing failed'')"
    "\<not> string_includes (str ''AI analysis is taking longer than expected. Please try again.'') (str ''AI analysis failed'')"
    by code_simp+
  then show ?thesis by (simp add: upload_failure_def error_message_def error_code_def)
qed

text \<open>
  C3. An upload whose AI call times out: the service throws its \<open>AppError\<close> with
  status 408, and the endpoint answers 500 with the generic message of the
  controller's \<open>catch\<close>, which never reads the status of the error. No row is
  written: the table is returned as it was.
\<close>

theorem upload_timeout_answers_500:
  "analyzeResume (pdf timeout_request) (api_key timeout_request) (ai timeout_request)
      (processed_at timeout_request) (originalname pdf_file)
     = Inl (AppError (str ''AI analysis is taking longer than expected. Please try again.'') 408)
   \<and> upload_resume prepareValue timeout_request db
     = (failure 500 (str ''An error occurred while processing your resume. Please try again.''), db)"
proof -
  have a: "analyzeResume (pdf timeout_request) (api_key timeout_request) (ai timeout_request)
      (processed_at timeout_request) (originalname pdf_file)
     = Inl (AppError (str ''AI analysis is taking longer than expected. Please try again.'') 408)"
    by (simp add: analyzeResume_def timeout_request_def extract_long_text timeout_is_408)
  have f: "req_file timeout_request = Some pdf_file" "mimetype pdf_file = str ''application/pdf''"
    "\<not> filesize pdf_file > 5 * 1024 * 1024" "filesize pdf_file \<noteq> 0"
    by (simp_all add: timeout_request_def pdf_file_def)
  show ?thesis
    using a f
    by (simp add: upload_resume_def validateFileUpload_def uploadResume_def
        upload_failure_timeout)
qed

lemma extract_short_text:
  "extractTextFromPDF (PdfData (Some (str ''Hello Bob!''))) fileName
   = Inl (AppError (str ''PDF contains very little text content. Please ensure the PDF is a proper resume document.'') 400)"
proof -
  have "trim (str ''Hello Bob!'') = str ''Hello Bob!''" by code_simp
  then show ?thesis by (simp add: extractTextFromPDF_def) (simp add: str_def)
qed

lemma upload_failure_short:
  "upload_failure (AppError (str ''PDF contains very little text content. Please ensure the PDF is a proper resume document.'') 400)
   = failure 500 (str ''An error occurred while processing your resume. Please try again.'')"
proof -
  have "\<not> string_includes (str ''PDF contains very little text content. Please ensure the PDF is a proper resume document.'') (str ''PDF parsing failed'')"
    "\<not> string_includes (str ''PDF contains very little text content. Please ensure the PDF is a proper resume document.'') (str ''AI analysis failed'')"
    by code_simp+
  then show ?thesis by (simp add: upload_failure_def error_message_def error_code_def)
qed

text \<open>
  C4. An upload of a valid PDF whose text has ten characters: the extraction throws
  its \<open>AppError\<close> with status 400, and the endpoint answers 500 with the generic
  message of the controller's \<open>catch\<close>. No row is written.
\<close>

theorem upload_short_text_answers_500:
  "extractTextFromPDF (pdf short_text_request) (originalname pdf_file)
     = Inl (AppError (str ''PDF contains very little text content. Please ensure the PDF is a proper resume document.'') 400)
   \<and> upload_resume prepareValue short_text_request db
     = (failure 500 (str ''An error occurred while processing your resume. Please try again.''), db)"
proof -
  have e: "extractTextFromPDF (pdf short_text_request) (originalname pdf_file)
     = Inl (AppError (str ''PDF contains very little text content. Please ensure the PDF is a proper resume document.'') 400)"
    by (simp add: short_text_request_def extract_short_text)
  have f: "req_file short_text_request = Some pdf_file" "mimetype pdf_file = str ''application/pdf''"
    "\<not> filesize pdf_file > 5 * 1024 * 1024" "filesize pdf_file \<noteq> 0"
    by (simp_all add: short_text_request_def pdf_file_def)
  show ?thesis
    using e f
    by (simp add: upload_resume_def validateFileUpload_def uploadResume_def analyzeResume_def
        upload_failure_short)
qed

section \<open>Statistics\<close>

text \<open>
  C5. The statistics of an empty table: status 200 and a total of 0, but the average,
  the maximum and the minimum are \<open>NaN\<close> (which the response prints as \<open>null\<close>), not 0.
\<close>

theorem stats_on_empty_table:
  "getResumeStats toFixed2 None \<lparr>resumes = [], next_id = n\<rparr>
   = \<lparr>status = 200, success = True,
      message = str ''Resume statistics retrieved successfully'',
      data = Some \<lparr>total_resumes = Finite 0 0, avg_rating = NaN, max_rating = NaN,
                   min_rating = NaN, high_rated_count = Finite 0 0,
                   medium_rated_count = Finite 0 0, low_rated_count = Finite 0 0\<rparr>\<rparr>"
  by (simp add: getResumeStats_def select_stats_def ratings_def List.map_filter_simps
        parseInt_show_nat number_of_def rounded_average_def)

section \<open>Identifiers that no row has\<close>

lemma digit_char_other:
  assumes "d < 10"
  shows "\<not> sql_space (digit_char d)" "digit_char d \<noteq> 0x5F" "digit_char d \<noteq> 0x6F"
    "digit_char d \<noteq> 0x4F" "digit_char d \<noteq> 0x62" "digit_char d \<noteq> 0x42"
  using digit_cases[OF assms] by (auto simp: sql_space_def digit_char_def)

lemma sql_digits_digits:
  "\<forall>d \<in> set ds. d < 10 \<Longrightarrow> sql_digits dec_val (map digit_char ds) = Some (ds, [])"
  by (induction ds) (simp_all add: cons_result_def)

lemma show_nat_nonempty: "show_nat n \<noteq> []"
  by (simp add: show_nat_def nat_digits_nonempty)

lemma sql_integer_show_nat: "sql_integer (show_nat n) = Some (int n)"
proof -
  obtain d ds where ds: "nat_digits n = d # ds"
    using nat_digits_nonempty[of n] by (cases "nat_digits n") auto
  have d: "d < 10" using nat_digits_lt[of n] ds by simp
  define s where "s = show_nat n"
  have s: "s = digit_char d # map digit_char ds" by (simp add: s_def show_nat_def ds)
  have t: "dropWhile sql_space s = s"
    by (simp add: s digit_char_other[OF d])
  have h: "s \<noteq> []" "hd s \<noteq> 0x2D" "hd s \<noteq> 0x2B" "hd s \<noteq> 0x5F"
    using digit_char_neq[OF d] digit_char_other[OF d] by (simp_all add: s)
  have x: "take 2 s \<noteq> str ''0x'' \<and> take 2 s \<noteq> str ''0X'' \<and> take 2 s \<noteq> str ''0o''
    \<and> take 2 s \<noteq> str ''0O'' \<and> take 2 s \<noteq> str ''0b'' \<and> take 2 s \<noteq> str ''0B''"
  proof (cases ds)
    case Nil
    then show ?thesis by (simp add: s str_def)
  next
    case (Cons e es)
    then have e: "e < 10" using nat_digits_lt[of n] ds by simp
    show ?thesis
      using digit_char_neq[OF e] digit_char_other[OF e] by (simp add: s Cons str_def)
  qed
  have p: "sql_digits dec_val s = Some (nat_digits n, [])"
    using sql_digits_digits[of "nat_digits n"] nat_digits_lt[of n]
    by (simp add: s_def show_nat_def)
  have "sql_integer s = Some (int n)"
    unfolding sql_integer_def Let_def t
    using h x nat_digits_nonempty[of n]
    by (simp add: p radix_int_10 radix_value_nat_digits)
  then show ?thesis by (simp add: s_def)
qed

lemma validateResumeId_show_nat: "0 < n \<Longrightarrow> validateResumeId (show_nat n) = None"
  by (simp add: validateResumeId_def parseInt_show_nat show_nat_nonempty)

lemma sql_parameter_show_nat:
  "int n \<le> 2147483647 \<Longrightarrow> sql_parameter (show_nat n) = Inr (int n)"
  by (simp add: sql_parameter_def sql_integer_show_nat)

lemma filter_absent:
  "i \<notin> resume_id ` set rs \<Longrightarrow> filter (\<lambda>r. resume_id r = i) rs = []"
  "i \<notin> resume_id ` set rs \<Longrightarrow> filter (\<lambda>r. resume_id r \<noteq> i) rs = rs"
  by (induction rs) auto

text \<open>
  An identifier written in plain decimal digits, within the range of the column, that
  no row has: both requests answer 404, and deleting again does the same.
\<close>

lemma get_absent:
  assumes "0 < n" and "int n \<le> 2147483647" and "int n \<notin> resume_id ` set (resumes db)"
  shows "get_resume None (show_nat n) db = failure 404 (str ''Resume not found.'')"
  using assms
  by (simp add: get_resume_def validateResumeId_show_nat getResumeById_def parseInt_show_nat
      show_nat_nonempty select_by_id_def sql_parameter_show_nat filter_absent)

lemma delete_absent:
  assumes "0 < n" and "int n \<le> 2147483647" and "int n \<notin> resume_id ` set (resumes db)"
  shows "delete_resume None (show_nat n) db = (failure 404 (str ''Resume not found.''), db)"
  using assms
  by (simp add: delete_resume_def validateResumeId_show_nat deleteResume_def parseInt_show_nat
      show_nat_nonempty delete_by_id_def sql_parameter_show_nat filter_absent)

lemma delete_repeatedly_absent:
  assumes "0 < n" and "int n \<le> 2147483647" and "int n \<notin> resume_id ` set (resumes db)"
  shows "delete_repeatedly k (show_nat n) db
         = (replicate k (failure 404 (str ''Resume not found.'')), db)"
  by (induction k) (simp_all add: delete_absent[OF assms])

lemma show_nat_big: "show_nat 2147483648 = str ''2147483648''"
  by (simp add: show_nat_def nat_digits.simps digit_char_def str_def)

text \<open>
  C7. The identifier 2147483648 is a positive integer that no row has. It passes the
  validation of the route and of the controller, which read it with \<open>parseInt\<close>, and
  the query fails on it, because it is outside the range of the column: \<open>GET /:id\<close>
  and \<open>DELETE /:id\<close> answer 500, not 404.
\<close>

theorem out_of_range_id_answers_500:
  "parseInt_string (str ''2147483648'') = Some 2147483648
   \<and> validateResumeId (str ''2147483648'') = None
   \<and> get_resume None (str ''2147483648'') \<lparr>resumes = [], next_id = 1\<rparr>
     = \<lparr>status = 500, success = False,
        message = str ''An error occurred while fetching the resume.'', data = None\<rparr>
   \<and> delete_resume None (str ''2147483648'') \<lparr>resumes = [], next_id = 1\<rparr>
     = (\<lparr>status = 500, success = False,
         message = str ''An error occurred while deleting the resume.'', data = None\<rparr>,
        \<lparr>resumes = [], next_id = 1\<rparr>)"
proof -
  have p: "parseInt_string (str ''2147483648'') = Some 2147483648"
    using parseInt_show_nat[of 2147483648] by (simp add: show_nat_big)
  have q: "sql_integer (str ''2147483648'') = Some 2147483648"
    using sql_integer_show_nat[of 2147483648] by (simp add: show_nat_big)
  have n: "str ''2147483648'' \<noteq> []" by (simp add: str_def)
  show ?thesis
    by (simp add: p q n get_resume_def delete_resume_def validateResumeId_def getResumeById_def
        deleteResume_def select_by_id_def delete_by_id_def sql_parameter_def failure_def)
qed

section \<open>Stored records\<close>

lemma upload_resume_valid:
  assumes "req_file req = Some f" and "mimetype f = str ''application/pdf''"
    and "filesize f \<le> 5 * 1024 * 1024" and "filesize f \<noteq> 0"
  shows "upload_resume pv req db =
     (case analyzeResume (pdf req) (api_key req) (ai req) (processed_at req) (originalname f) of
        Inl error \<Rightarrow> (upload_failure error, db)
      | Inr analysisResult \<Rightarrow>
          (case insert_resume (storage req) (timestamp req) pv (originalname f) analysisResult db of
             (Inl error, db') \<Rightarrow> (upload_failure error, db')
           | (Inr savedResume, db') \<Rightarrow>
               (case parse_columns savedResume of
                  Inl error \<Rightarrow> (upload_failure error, db')
                | Inr parsed \<Rightarrow>
                    (\<lparr>status = 201, success = True,
                      message = str ''Resume uploaded and analyzed successfully!'',
                      data = Some parsed\<rparr>, db'))))"
  using assms by (simp add: upload_resume_def validateFileUpload_def uploadResume_def)

lemma upload_analysis_request:
  "upload_resume pv (analysis_request t) db =
     (case analyzeResume (pdf (analysis_request t)) (api_key (analysis_request t))
             (ai (analysis_request t)) (processed_at (analysis_request t))
             (originalname pdf_file) of
        Inl error \<Rightarrow> (upload_failure error, db)
      | Inr analysisResult \<Rightarrow>
          (case insert_resume (storage (analysis_request t)) (timestamp (analysis_request t)) pv
                  (originalname pdf_file) analysisResult db of
             (Inl error, db') \<Rightarrow> (upload_failure error, db')
           | (Inr savedResume, db') \<Rightarrow>
               (case parse_columns savedResume of
                  Inl error \<Rightarrow> (upload_failure error, db')
                | Inr parsed \<Rightarrow>
                    (\<lparr>status = 201, success = True,
                      message = str ''Resume uploaded and analyzed successfully!'',
                      data = Some parsed\<rparr>, db'))))"
  by (rule upload_resume_valid) (simp_all add: analysis_request_def pdf_file_def)

lemma analysis_request_skills:
  "(case analyzeResume (pdf (analysis_request 1)) (api_key (analysis_request 1))
           (ai (analysis_request 1)) (processed_at (analysis_request 1)) (originalname pdf_file) of
      Inl e \<Rightarrow> False
    | Inr a \<Rightarrow>
        member a (str ''technical_skills'') = Some (JArr [JStr (str ''SQL''), JStr (str ''Go'')]))"
  by code_simp

lemma analysis_request_stored:
  "upload_resume prepareValue (analysis_request 1) empty_table
     = (failure 500 (str ''An error occurred while processing your resume. Please try again.''),
        stored_table)"
  unfolding upload_analysis_request by code_simp

lemma stored_row_not_retrieved:
  "get_resume None (str ''1'') stored_table
     = failure 500 (str ''An error occurred while fetching the resume.'')"
  by code_simp

text \<open>
  C6. The upload of the scenario has an analysis whose technical skills are \<open>SQL\<close> and
  \<open>Go\<close>. The row is stored with its lists, but the upload answers 500 and so does
  \<open>GET /1\<close> for the stored row: both controllers pass each of the seven columns, which
  the driver has already decoded, through \<open>JSON.parse\<close>, and the first of them, an
  empty array, has the empty string as its string form.
\<close>

theorem stored_lists_not_retrieved:
  "(case analyzeResume (pdf (analysis_request 1)) (api_key (analysis_request 1))
           (ai (analysis_request 1)) (processed_at (analysis_request 1)) (originalname pdf_file) of
      Inl e \<Rightarrow> False
    | Inr a \<Rightarrow>
        member a (str ''technical_skills'') = Some (JArr [JStr (str ''SQL''), JStr (str ''Go'')]))
   \<and> upload_resume prepareValue (analysis_request 1) empty_table
     = (failure 500 (str ''An error occurred while processing your resume. Please try again.''),
        stored_table)
   \<and> map technical_skills (resumes stored_table)
     = [Some (JArr [JStr (str ''SQL''), JStr (str ''Go'')])]
   \<and> map work_experience (resumes stored_table) = [Some (JArr [])]
   \<and> parse_column (Some (JArr [])) = Inl SyntaxError
   \<and> get_resume None (str ''1'') stored_table
     = failure 500 (str ''An error occurred while fetching the resume.'')"
proof -
  have p: "parse_column (Some (JArr [])) = Inl SyntaxError" by code_simp
  have m: "map technical_skills (resumes stored_table)
             = [Some (JArr [JStr (str ''SQL''), JStr (str ''Go'')])]"
    "map work_experience (resumes stored_table) = [Some (JArr [])]"
    by (simp_all add: stored_table_def)
  show ?thesis
    using analysis_request_skills analysis_request_stored stored_row_not_retrieved p m
    by blast
qed

section \<open>The list of summaries\<close>

lemma newest_first:
  "sorted_wrt (\<lambda>a b. uploaded_at b \<le> uploaded_at a)
     (map summary_of (rev (sort_key uploaded_at rs)))"
proof -
  have "sorted (map uploaded_at (sort_key uploaded_at rs))" by (rule sorted_sort_key)
  then have "sorted_wrt (\<lambda>a b. uploaded_at a \<le> uploaded_at b) (sort_key uploaded_at rs)"
    by (simp add: sorted_wrt_map)
  then show ?thesis
    by (simp add: sorted_wrt_map sorted_wrt_rev summary_of_def)
qed

lemma three_uploads_listed:
  "getAllResumes None
     (snd (uploads prepareValue [analysis_request 1, analysis_request 2, analysis_request 3]
             empty_table))
   = \<lparr>status = 200, success = True, message = str ''Resumes retrieved successfully'',
      data = Some ([listed 3, listed 2, listed 1], 3)\<rparr>"
  unfolding uploads.simps upload_analysis_request by code_simp

text \<open>
  C8. The list endpoint answers 200 with the rows and their number. The rows are the
  summary projections of the stored records, each once, newest first. A projection
  keeps \<open>id\<close>, \<open>file_name\<close>, \<open>uploaded_at\<close>, \<open>name\<close>, \<open>email\<close> and
  \<open>resume_rating\<close>, and its preview is the improvement areas, cut to the first 100
  characters followed by \<open>...\<close> when they have more than 100. After the three uploads
  of the scenario at the times 1, 2 and 3 on the empty table, each of which stores its
  record, the list has exactly the three summaries, the newest first.
\<close>

theorem list_returns_summaries:
  "(\<exists>rows. getAllResumes None db
             = \<lparr>status = 200, success = True, message = str ''Resumes retrieved successfully'',
                data = Some (rows, length rows)\<rparr>
          \<and> mset rows = image_mset summary_of (mset (resumes db))
          \<and> sorted_wrt (\<lambda>a b. uploaded_at b \<le> uploaded_at a) rows
          \<and> length rows = length (resumes db))
   \<and> resume_id (summary_of r) = resume_id r \<and> file_name (summary_of r) = file_name r
   \<and> uploaded_at (summary_of r) = uploaded_at r \<and> name (summary_of r) = name r
   \<and> email (summary_of r) = email r \<and> resume_rating (summary_of r) = resume_rating r
   \<and> improvement_summary (summary_of r)
       = map_option
           (\<lambda>s. if 100 < length (code_points s)
                then from_code_points (take 100 (code_points s)) @ str ''...'' else s)
           (improvement_areas r)
   \<and> getAllResumes None
        (snd (uploads prepareValue [analysis_request 1, analysis_request 2, analysis_request 3]
                empty_table))
      = \<lparr>status = 200, success = True, message = str ''Resumes retrieved successfully'',
         data = Some ([listed 3, listed 2, listed 1], 3)\<rparr>"
proof -
  define rows where "rows = map summary_of (rev (sort_key uploaded_at (resumes db)))"
  have a: "getAllResumes None db
             = \<lparr>status = 200, success = True, message = str ''Resumes retrieved successfully'',
                data = Some (rows, length rows)\<rparr>"
    by (simp add: getAllResumes_def select_summaries_def rows_def)
  have b: "mset rows = image_mset summary_of (mset (resumes db))"
    by (simp add: rows_def)
  have c: "sorted_wrt (\<lambda>a b. uploaded_at b \<le> uploaded_at a) rows"
    unfolding rows_def by (rule newest_first)
  have d: "length rows = length (resumes db)" by (simp add: rows_def)
  have e: "improvement_summary (summary_of r)
       = map_option
           (\<lambda>s. if 100 < length (code_points s)
                then from_code_points (take 100 (code_points s)) @ str ''...'' else s)
           (improvement_areas r)"
    by (simp add: summary_of_def improvement_preview_def split: option.splits)
  have f: "resume_id (summary_of r) = resume_id r \<and> file_name (summary_of r) = file_name r
   \<and> uploaded_at (summary_of r) = uploaded_at r \<and> name (summary_of r) = name r
   \<and> email (summary_of r) = email r \<and> resume_rating (summary_of r) = resume_rating r"
    by (simp add: summary_of_def)
  from a b c d have "\<exists>rows. getAllResumes None db
             = \<lparr>status = 200, success = True, message = str ''Resumes retrieved successfully'',
                data = Some (rows, length rows)\<rparr>
          \<and> mset rows = image_mset summary_of (mset (resumes db))
          \<and> sorted_wrt (\<lambda>a b. uploaded_at b \<le> uploaded_at a) rows
          \<and> length rows = length (resumes db)" by blast
  then show ?thesis using e f three_uploads_listed by blast
qed

text \<open>Sixty characters outside the basic plane are 120 code units and are not cut.\<close>

lemma astral_preview:
  "improvement_preview (Some (concat (replicate 60 [0xD83D, 0xDE00])))
     = Some (concat (replicate 60 [0xD83D, 0xDE00]))"
  by code_simp

end
